theory Spec2Isabelle
  imports Main "HOL-Library.Multiset" "HOL-Library.Sublist"
begin


section \<open>Errors\<close>

text \<open>
  A thrown JavaScript error object: its class and its message. \<open>Error\<close> is what
  \<^verbatim>\<open>new Error(msg)\<close> builds; \<open>TypeError\<close> is what the engine throws when a property
  of \<^verbatim>\<open>null\<close> or \<^verbatim>\<open>undefined\<close> is read.
\<close>

datatype js_error = Error string | TypeError string

fun message :: "js_error \<Rightarrow> string" where
  "message (Error m) = m"
| "message (TypeError m) = m"

fun error_name :: "js_error \<Rightarrow> string" where
  "error_name (Error m) = ''Error''"
| "error_name (TypeError m) = ''TypeError''"

text \<open>
  \<^verbatim>\<open>e.message || e\<close> inside a template string: the message when it is not empty,
  otherwise the error printed, which for an empty message is its class name.
\<close>

definition message_or_self :: "js_error \<Rightarrow> string" where
  "message_or_self e = (if message e \<noteq> [] then message e else error_name e)"

text \<open>
  A value that is thrown, or that a promise rejects with, need not be an error object:
  it is \<^verbatim>\<open>null\<close> or \<^verbatim>\<open>undefined\<close> (\<open>Nullish\<close>), an error object, or any other value
  (a string, a number, an object without a \<^verbatim>\<open>message\<close>), given by the text it prints as.
\<close>

datatype js_thrown = Nullish | ErrorObject js_error | OtherValue string

text \<open>
  \<^verbatim>\<open>`${e.message || e}`\<close> for a caught value \<^verbatim>\<open>e\<close>. Reading \<^verbatim>\<open>message\<close> of \<^verbatim>\<open>null\<close> or
  \<^verbatim>\<open>undefined\<close> throws, so there is no text then (\<open>None\<close>); a value without a
  \<^verbatim>\<open>message\<close> is printed as it is.
\<close>

fun reportText :: "js_thrown \<Rightarrow> string option" where
  "reportText Nullish = None"
| "reportText (ErrorObject e) = Some (message_or_self e)"
| "reportText (OtherValue s) = Some s"

section \<open>Source registry (get-mesh.ts, lines 63 to 111)\<close>

text \<open>
  What \<^verbatim>\<open>handler.getMeshSource()\<close> resolves to. The schema is always read; the other
  keys are optional. \<open>ms_batch\<close> is \<open>None\<close> when the object has no \<^verbatim>\<open>batch\<close> key at all
  (\<^verbatim>\<open>'batch' in source\<close> is false), and \<open>Some v\<close> when it has one, \<open>v\<close> being the value
  stored under it (\<open>None\<close> for \<^verbatim>\<open>undefined\<close>). \<open>ms_contextBuilder\<close> is the key the Neo4J
  handler sets; \<^verbatim>\<open>getMesh\<close> never reads it.
\<close>

record ('sch, 'ex, 'cb) MeshSource =
  ms_schema :: 'sch
  ms_executor :: "'ex option"
  ms_contextVariables :: "string list option"
  ms_contextBuilder :: "'cb option"
  ms_batch :: "bool option option"

text \<open>One entry of \<^verbatim>\<open>options.sources\<close>.\<close>

record ('h, 't, 'm) ApiSource =
  name :: string
  handler :: 'h
  transforms :: "'t list"
  merge :: "'m option"

text \<open>The object pushed on \<^verbatim>\<open>rawSources\<close> (lines 88 to 97).\<close>

record ('sch, 'ex, 'h, 't, 'm) RawSourceOutput =
  rs_name :: string
  rs_schema :: 'sch
  rs_executor :: "'ex option"
  rs_transforms :: "'t list"
  rs_contextVariables :: "string list"
  rs_handler :: 'h
  rs_batch :: "bool option"
  rs_merge :: "'m option"

text \<open>
  The collaborators the registry calls. \<open>getMeshSource\<close> is the handler's method, which
  may reject with any value; \<open>groupTransforms\<close> splits the configured transforms into
  the pair (wrap, no-wrap); \<open>applySchemaTransforms\<close> applies the no-wrap ones to the
  schema and may throw any value. The last two live in \<^verbatim>\<open>@graphql-mesh/utils\<close> and are
  parameters here.
\<close>

record ('sch, 'ex, 'cb, 'h, 't) SourceEnv =
  getMeshSource :: "'h \<Rightarrow> js_thrown + ('sch, 'ex, 'cb) MeshSource"
  groupTransforms :: "'t list \<Rightarrow> 't list \<times> 't list"
  applySchemaTransforms :: "'sch \<Rightarrow> ('sch, 'ex, 'cb) MeshSource \<Rightarrow> 't list \<Rightarrow> js_thrown + 'sch"

text \<open>
  The variables the per-source callbacks share: the \<^verbatim>\<open>rawSources\<close> array, the
  \<^verbatim>\<open>failed\<close> flag, the handlers whose \<^verbatim>\<open>getMeshSource\<close> has been called, and the lines
  written with \<^verbatim>\<open>sourceLogger.error\<close>, each with the name of the child logger (the
  source's name) that wrote it.
\<close>

record ('sch, 'ex, 'h, 't, 'm) RegistryState =
  rawSources :: "('sch, 'ex, 'h, 't, 'm) RawSourceOutput list"
  failed :: bool
  invoked :: "'h list"
  errorLog :: "(string \<times> string) list"

definition initialRegistry :: "('sch, 'ex, 'h, 't, 'm) RegistryState" where
  "initialRegistry = \<lparr> rawSources = [], failed = False, invoked = [], errorLog = [] \<rparr>"

definition mkRawSource ::
  "('h, 't, 'm) ApiSource \<Rightarrow> ('sch, 'ex, 'cb) MeshSource \<Rightarrow> 'sch \<Rightarrow> 't list
     \<Rightarrow> ('sch, 'ex, 'h, 't, 'm) RawSourceOutput" where
  "mkRawSource apiSource source apiSchema wrapTransforms =
     \<lparr> rs_name = name apiSource,
       rs_schema = apiSchema,
       rs_executor = ms_executor source,
       rs_transforms = wrapTransforms,
       rs_contextVariables =
         (case ms_contextVariables source of None \<Rightarrow> [] | Some cv \<Rightarrow> cv),
       rs_handler = handler apiSource,
       rs_batch = (case ms_batch source of None \<Rightarrow> Some True | Some b \<Rightarrow> b),
       rs_merge = merge apiSource \<rparr>"

text \<open>
  The \<^verbatim>\<open>catch\<close> block (lines 98 to 103). It builds the line for the source's own logger
  from \<^verbatim>\<open>e.message || e\<close> (line 100) and raises the flag after that (line 102). For a
  caught value of \<^verbatim>\<open>null\<close> or \<^verbatim>\<open>undefined\<close> building the line throws: nothing is logged,
  the flag is not reached, and the registry stays as it was.
\<close>

definition failureLine :: "('h, 't, 'm) ApiSource \<Rightarrow> string \<Rightarrow> string \<times> string" where
  "failureLine apiSource text' =
     (name apiSource, ''Failed to generate schema: '' @ text')"

definition sourceFailed ::
  "('h, 't, 'm) ApiSource \<Rightarrow> js_thrown \<Rightarrow> ('sch, 'ex, 'h, 't, 'm) RegistryState
     \<Rightarrow> ('sch, 'ex, 'h, 't, 'm) RegistryState" where
  "sourceFailed apiSource e st =
     (case reportText e of
        None \<Rightarrow> st
      | Some text' \<Rightarrow>
          st \<lparr> errorLog := errorLog st @ [failureLine apiSource text'], failed := True \<rparr>)"

text \<open>
  The outcome of the \<^verbatim>\<open>try\<close> block for one source: the raw source it would push, or
  the error it throws.
\<close>

definition sourceOutcome ::
  "('sch, 'ex, 'cb, 'h, 't) SourceEnv \<Rightarrow> ('h, 't, 'm) ApiSource
     \<Rightarrow> js_thrown + ('sch, 'ex, 'h, 't, 'm) RawSourceOutput" where
  "sourceOutcome env apiSource =
     (case getMeshSource env (handler apiSource) of
        Inl e \<Rightarrow> Inl e
      | Inr source \<Rightarrow>
          (case groupTransforms env (transforms apiSource) of
             (wrapTransforms, noWrapTransforms) \<Rightarrow>
               if noWrapTransforms \<noteq> [] then
                 (case applySchemaTransforms env (ms_schema source) source noWrapTransforms of
                    Inl e \<Rightarrow> Inl e
                  | Inr apiSchema \<Rightarrow> Inr (mkRawSource apiSource source apiSchema wrapTransforms))
               else Inr (mkRawSource apiSource source (ms_schema source) wrapTransforms)))"

text \<open>
  Each callback of \<^verbatim>\<open>options.sources.map(async ...)\<close> runs up to its first \<^verbatim>\<open>await\<close>
  when \<^verbatim>\<open>map\<close> calls it, so every handler's \<^verbatim>\<open>getMeshSource\<close> is called, in the order
  of the configuration, before any result is looked at (\<open>startSource\<close>). The rest of a
  callback runs when its handler's promise settles (\<open>settleSource\<close>): it pushes the raw
  source, or runs the \<^verbatim>\<open>catch\<close> block. A callback whose \<^verbatim>\<open>catch\<close> block throws ends
  rejected; \<^verbatim>\<open>Promise.allSettled\<close> waits for all callbacks and takes a rejected one like
  any other, so nothing of it reaches \<^verbatim>\<open>getMesh\<close>.
\<close>

definition startSource ::
  "('h, 't, 'm) ApiSource \<Rightarrow> ('sch, 'ex, 'h, 't, 'm) RegistryState
     \<Rightarrow> ('sch, 'ex, 'h, 't, 'm) RegistryState" where
  "startSource apiSource st = st \<lparr> invoked := invoked st @ [handler apiSource] \<rparr>"

definition settleSource ::
  "('sch, 'ex, 'cb, 'h, 't) SourceEnv \<Rightarrow> ('h, 't, 'm) ApiSource
     \<Rightarrow> ('sch, 'ex, 'h, 't, 'm) RegistryState \<Rightarrow> ('sch, 'ex, 'h, 't, 'm) RegistryState" where
  "settleSource env apiSource st =
     (case sourceOutcome env apiSource of
        Inl e \<Rightarrow> sourceFailed apiSource e st
      | Inr rawSource \<Rightarrow> st \<lparr> rawSources := rawSources st @ [rawSource] \<rparr>)"

text \<open>
  \<open>settled\<close> lists the sources in the order in which their handlers' promises settle;
  the scheduler chooses it, and it is a rearrangement of the configured list.
\<close>

definition buildSources ::
  "('sch, 'ex, 'cb, 'h, 't) SourceEnv \<Rightarrow> ('h, 't, 'm) ApiSource list
     \<Rightarrow> ('h, 't, 'm) ApiSource list \<Rightarrow> ('sch, 'ex, 'h, 't, 'm) RegistryState" where
  "buildSources env sources settled =
     fold (settleSource env) settled (fold startSource sources initialRegistry)"

definition schemasFailedMessage :: string where
  "schemasFailedMessage =
     ''Schemas couldn'' @ [CHR 0x27] @ ''t be generated successfully. Check for the logs by running Mesh with DEBUG=1 environmental variable to get more verbose output.''"

section \<open>In-context SDK and mesh construction (get-mesh.ts, lines 113 to 121, 152 to 263, 413 to 424)\<close>

datatype OperationTypeNode = Query | Mutation | Subscription

text \<open>
  A root type of a transformed schema: its name and its field map (\<^verbatim>\<open>getFields()\<close>),
  each field given by its \<^verbatim>\<open>type\<close>. A transformed schema is read through
  \<^verbatim>\<open>getQueryType()\<close>, \<^verbatim>\<open>getMutationType()\<close> and \<^verbatim>\<open>getSubscriptionType()\<close> only.
\<close>

record 'ty RootType =
  rt_name :: string
  rt_fields :: "(string \<times> 'ty) list"

record 'ty TransformedSchema =
  queryType :: "'ty RootType option"
  mutationType :: "'ty RootType option"
  subscriptionType :: "'ty RootType option"

text \<open>
  The merger's result: the unified schema and \<^verbatim>\<open>extensions.sourceMap\<close>. The source map
  is keyed by the identity of the raw source objects; a raw source is identified here
  by its position in the \<^verbatim>\<open>rawSources\<close> array handed to the merger.
\<close>

record ('usch, 'ty) UnifiedSchema =
  us_schema :: 'usch
  sourceMap :: "nat \<Rightarrow> 'ty TransformedSchema option"

text \<open>
  An in-context SDK callable is a closure; it is represented by the variables it
  captures (lines 162 to 184): the raw source, its transformed schema, the operation
  type, the field name and the field's type.
\<close>

record ('rs, 'ty) SdkField =
  sf_rawSource :: 'rs
  sf_transformedSchema :: "'ty TransformedSchema"
  sf_operation :: OperationTypeNode
  sf_fieldName :: string
  sf_returnType :: 'ty

definition rootTypeSdk ::
  "'rs \<Rightarrow> 'ty TransformedSchema \<Rightarrow> OperationTypeNode \<Rightarrow> 'ty RootType
     \<Rightarrow> (string \<Rightarrow> ('rs, 'ty) SdkField option)" where
  "rootTypeSdk rawSource transformedSchema operationType rootType =
     fold (\<lambda>(fieldName, ty) m.
             m(fieldName \<mapsto> \<lparr> sf_rawSource = rawSource,
                               sf_transformedSchema = transformedSchema,
                               sf_operation = operationType,
                               sf_fieldName = fieldName,
                               sf_returnType = ty \<rparr>))
          (rt_fields rootType) Map.empty"

text \<open>
  \<^verbatim>\<open>rawSourceContext\<close>: the raw source and, under each present root type's name, the
  callables of its fields. The loop visits \<^verbatim>\<open>query\<close>, \<^verbatim>\<open>mutation\<close>, \<^verbatim>\<open>subscription\<close>
  in this order.
\<close>

record ('rs, 'ty) RawSourceContext =
  rc_rawSource :: 'rs
  rc_sdk :: "string \<Rightarrow> (string \<Rightarrow> ('rs, 'ty) SdkField option) option"

definition rawSourceContext :: "'rs \<Rightarrow> 'ty TransformedSchema \<Rightarrow> ('rs, 'ty) RawSourceContext" where
  "rawSourceContext rawSource transformedSchema =
     \<lparr> rc_rawSource = rawSource,
       rc_sdk =
         fold (\<lambda>(operationType, rootType) ctx.
                 case rootType of
                   None \<Rightarrow> ctx
                 | Some rt \<Rightarrow>
                     ctx(rt_name rt \<mapsto> rootTypeSdk rawSource transformedSchema operationType rt))
              [(Query, queryType transformedSchema),
               (Mutation, mutationType transformedSchema),
               (Subscription, subscriptionType transformedSchema)]
              Map.empty \<rparr>"

text \<open>
  The callbacks of \<^verbatim>\<open>rawSources.map(async ...)\<close> (lines 161 to 257) have no \<^verbatim>\<open>await\<close>:
  they run one after the other. A raw source without an entry in the source map makes
  \<^verbatim>\<open>transformedSchema.getQueryType()\<close> throw a \<open>TypeError\<close>; \<^verbatim>\<open>Promise.all\<close> then rejects
  with the first such error, and the mesh context is dropped with it.
\<close>

fun attachInContextSdk ::
  "(nat \<Rightarrow> 'ty TransformedSchema option) \<Rightarrow> (nat \<times> ('sch, 'ex, 'h, 't, 'm) RawSourceOutput) list
     \<Rightarrow> (string \<Rightarrow> (('sch, 'ex, 'h, 't, 'm) RawSourceOutput, 'ty) RawSourceContext option)
     \<Rightarrow> js_error + (string \<Rightarrow> (('sch, 'ex, 'h, 't, 'm) RawSourceOutput, 'ty) RawSourceContext option)"
  where
  "attachInContextSdk sm [] meshContext = Inr meshContext"
| "attachInContextSdk sm ((i, rawSource) # rest) meshContext =
     (case sm i of
        None \<Rightarrow> Inl (TypeError ''Cannot read properties of undefined'')
      | Some transformedSchema \<Rightarrow>
          attachInContextSdk sm rest
            (meshContext(rs_name rawSource \<mapsto> rawSourceContext rawSource transformedSchema)))"

text \<open>
  What \<^verbatim>\<open>getMesh\<close> returns, as far as it is data: the unified schema with the resolver
  hooks applied, the raw sources, and the mesh context holding the SDK of every
  source. The functions of the instance (\<^verbatim>\<open>execute\<close>, \<^verbatim>\<open>sdkRequester\<close>) and the
  \<^verbatim>\<open>resolverDone\<close> subscriber are defined in the sections below.
\<close>

record ('sch, 'ex, 'h, 't, 'm, 'usch, 'ty) MeshInstance =
  mi_schema :: 'usch
  mi_rawSources :: "('sch, 'ex, 'h, 't, 'm) RawSourceOutput list"
  mi_meshContext ::
    "string \<Rightarrow> (('sch, 'ex, 'h, 't, 'm) RawSourceOutput, 'ty) RawSourceContext option"

text \<open>
  \<open>getUnifiedSchema\<close> is the merger (it may reject) and \<open>applyResolversHooksToSchema\<close> the
  hook layer; both are collaborators outside \<^verbatim>\<open>get-mesh.ts\<close>. The merger also receives
  \<^verbatim>\<open>additionalTypeDefs\<close>, \<^verbatim>\<open>additionalResolvers\<close> and \<^verbatim>\<open>transforms\<close> of the options, which
  \<^verbatim>\<open>getMesh\<close> hands over untouched; they are part of the parameter. Creating the live
  query store and subscribing to \<^verbatim>\<open>resolverDone\<close> are taken not to throw.
\<close>

definition meshFromSources ::
  "(('sch, 'ex, 'h, 't, 'm) RawSourceOutput list \<Rightarrow> js_error + ('usch, 'ty) UnifiedSchema)
     \<Rightarrow> ('usch \<Rightarrow> (string \<Rightarrow> (('sch, 'ex, 'h, 't, 'm) RawSourceOutput, 'ty) RawSourceContext option)
           \<Rightarrow> 'usch)
     \<Rightarrow> ('sch, 'ex, 'h, 't, 'm) RawSourceOutput list
     \<Rightarrow> js_error + ('sch, 'ex, 'h, 't, 'm, 'usch, 'ty) MeshInstance" where
  "meshFromSources getUnifiedSchema applyResolversHooksToSchema rawSrcs =
     (case getUnifiedSchema rawSrcs of
        Inl e \<Rightarrow> Inl e
      | Inr unifiedSchema \<Rightarrow>
          (case attachInContextSdk (sourceMap unifiedSchema) (enumerate 0 rawSrcs) Map.empty of
             Inl e \<Rightarrow> Inl e
           | Inr meshContext \<Rightarrow>
               Inr \<lparr> mi_schema =
                       applyResolversHooksToSchema (us_schema unifiedSchema) meshContext,
                     mi_rawSources = rawSrcs,
                     mi_meshContext = meshContext \<rparr>))"

text \<open>
  \<^verbatim>\<open>getMesh\<close>: the registry, the check of the \<^verbatim>\<open>failed\<close> flag (lines 107 to 111), and
  the rest of the construction.
\<close>

definition getMesh ::
  "('sch, 'ex, 'cb, 'h, 't) SourceEnv
     \<Rightarrow> (('sch, 'ex, 'h, 't, 'm) RawSourceOutput list \<Rightarrow> js_error + ('usch, 'ty) UnifiedSchema)
     \<Rightarrow> ('usch \<Rightarrow> (string \<Rightarrow> (('sch, 'ex, 'h, 't, 'm) RawSourceOutput, 'ty) RawSourceContext option)
           \<Rightarrow> 'usch)
     \<Rightarrow> ('h, 't, 'm) ApiSource list \<Rightarrow> ('h, 't, 'm) ApiSource list
     \<Rightarrow> js_error + ('sch, 'ex, 'h, 't, 'm, 'usch, 'ty) MeshInstance" where
  "getMesh env getUnifiedSchema applyResolversHooksToSchema sources settled =
     (let st = buildSources env sources settled in
      if failed st then Inl (Error schemasFailedMessage)
      else meshFromSources getUnifiedSchema applyResolversHooksToSchema (rawSources st))"

text \<open>
  For the statements below: the raw sources a list of sources gets registered, and the
  lines it leaves on the log, when the sources settle in the order of the list.
\<close>

definition registered ::
  "('sch, 'ex, 'cb, 'h, 't) SourceEnv \<Rightarrow> ('h, 't, 'm) ApiSource list
     \<Rightarrow> ('sch, 'ex, 'h, 't, 'm) RawSourceOutput list" where
  "registered env xs =
     concat (map (\<lambda>a. case sourceOutcome env a of Inl e \<Rightarrow> [] | Inr r \<Rightarrow> [r]) xs)"


definition failureLines ::
  "('sch, 'ex, 'cb, 'h, 't) SourceEnv \<Rightarrow> ('h, 't, 'm) ApiSource list \<Rightarrow> (string \<times> string) list" where
  "failureLines env xs =
     concat (map (\<lambda>a. case sourceOutcome env a of
                          Inl e \<Rightarrow> (case reportText e of
                                     None \<Rightarrow> []
                                   | Some text' \<Rightarrow> [failureLine a text'])
                        | Inr r \<Rightarrow> []) xs)"

section \<open>Selection set parameters (get-mesh.ts, lines 427 to 452)\<close>

text \<open>
  \<^verbatim>\<open>SelectionSetParam\<close> is a string of GraphQL syntax, a parsed document or a selection
  set node; \<^verbatim>\<open>SelectionSetParamOrFactory\<close> is one of these or a function from the current
  subtree to one of these.
\<close>

datatype ('sel, 'sdoc) SelectionSetParam =
  SelString string | SelDocument 'sdoc | SelNode 'sel

datatype ('sel, 'sdoc) SelectionSetParamOrFactory =
  Param "('sel, 'sdoc) SelectionSetParam"
| Factory "'sel \<Rightarrow> ('sel, 'sdoc) SelectionSetParam"

text \<open>
  \<open>parseSelectionSet\<close> (of \<^verbatim>\<open>@graphql-tools/utils\<close>; it throws on a syntax error) and
  \<open>print\<close> (of \<^verbatim>\<open>graphql\<close>) are library functions and parameters here. The tests run in
  the order of the source: a string first, then a document, and anything else is
  returned as it is.
\<close>

definition normalizeSelectionSetParam ::
  "(string \<Rightarrow> js_error + 'sel) \<Rightarrow> ('sdoc \<Rightarrow> string) \<Rightarrow> ('sel, 'sdoc) SelectionSetParam
     \<Rightarrow> js_error + 'sel" where
  "normalizeSelectionSetParam parseSelectionSet print selectionSetParam =
     (case selectionSetParam of
        SelString s \<Rightarrow> parseSelectionSet s
      | SelDocument d \<Rightarrow> parseSelectionSet (print d)
      | SelNode n \<Rightarrow> Inr n)"

definition normalizeSelectionSetParamOrFactory ::
  "(string \<Rightarrow> js_error + 'sel) \<Rightarrow> ('sdoc \<Rightarrow> string) \<Rightarrow> ('sel, 'sdoc) SelectionSetParamOrFactory
     \<Rightarrow> ('sel \<Rightarrow> js_error + 'sel)" where
  "normalizeSelectionSetParamOrFactory parseSelectionSet print selectionSetParamOrFactory =
     (\<lambda>subtree.
        case selectionSetParamOrFactory of
          Factory f \<Rightarrow> normalizeSelectionSetParam parseSelectionSet print (f subtree)
        | Param p \<Rightarrow> normalizeSelectionSetParam parseSelectionSet print p)"

definition identical :: "'a \<Rightarrow> 'a" where
  "identical val = val"

section \<open>In-context SDK callables (get-mesh.ts, lines 185 to 251)\<close>

text \<open>
  The \<^verbatim>\<open>WrapQuery\<close> transform of \<^verbatim>\<open>@graphql-tools/wrap\<close>, as the value built from its three
  constructor arguments: the path, the selection set wrapper and the result extractor.
\<close>

datatype ('sel, 'v) Transform =
  WrapQuery "string list" "'sel \<Rightarrow> js_error + 'sel" "'v \<Rightarrow> 'v"

text \<open>
  The object a callable is called with. \<open>'v\<close> stands for the values typed \<^verbatim>\<open>any\<close>.
  An optional argument that is left out is \<open>None\<close>.
\<close>

record ('v, 'info, 'sel, 'sdoc) SdkCallArgs =
  arg_root :: 'v
  arg_args :: 'v
  arg_context :: 'v
  arg_info :: 'info
  arg_selectionSet :: "('sel, 'sdoc) SelectionSetParamOrFactory option"
  arg_key :: "string option"
  arg_argsFromKeys :: "(string list \<Rightarrow> 'v) option"
  arg_valuesFromResults :: "('v \<Rightarrow> string list option \<Rightarrow> 'v) option"

text \<open>\<^verbatim>\<open>commonDelegateOptions\<close> (lines 210 to 219).\<close>

record ('rs, 'v, 'ty, 'info) CommonDelegateOptions =
  dl_schema :: 'rs
  dl_rootValue :: 'v
  dl_operation :: OperationTypeNode
  dl_fieldName :: string
  dl_returnType :: 'ty
  dl_context :: 'v
  dl_transformedSchema :: "'ty TransformedSchema"
  dl_info :: 'info

text \<open>\<^verbatim>\<open>options\<close> of the single call (lines 235 to 244).\<close>

record ('rs, 'v, 'ty, 'info, 'sel) DelegateToSchemaOptions =
  "('rs, 'v, 'ty, 'info) CommonDelegateOptions" +
  dl_args :: 'v
  dl_transforms :: "('sel, 'v) Transform list option"

text \<open>\<^verbatim>\<open>batchDelegationOptions\<close> (lines 221 to 232).\<close>

record ('rs, 'v, 'ty, 'info, 'sel) BatchDelegateOptions =
  "('rs, 'v, 'ty, 'info) CommonDelegateOptions" +
  bd_key :: string
  bd_argsFromKeys :: "string list \<Rightarrow> 'v"
  bd_valuesFromResults :: "('v \<Rightarrow> string list option \<Rightarrow> 'v) option"
  bd_transforms :: "('sel, 'v) Transform list option"

text \<open>
  The call a callable makes into the delegation library: \<^verbatim>\<open>delegateToSchema\<close> or
  \<^verbatim>\<open>batchDelegateToSchema\<close>, with the options object it passes.
\<close>

datatype ('rs, 'v, 'ty, 'info, 'sel) Delegation =
  DelegateToSchema "('rs, 'v, 'ty, 'info, 'sel) DelegateToSchemaOptions"
| BatchDelegateToSchema "('rs, 'v, 'ty, 'info, 'sel) BatchDelegateOptions"

text \<open>
  \<^verbatim>\<open>if (selectionSet)\<close>: a missing argument and the empty string are falsy, every other
  string, object or function is truthy. When it holds, the transform list is the one
  \<^verbatim>\<open>WrapQuery\<close> at the path \<^verbatim>\<open>[fieldName]\<close>.
\<close>

definition selectionSetTransforms ::
  "(string \<Rightarrow> js_error + 'sel) \<Rightarrow> ('sdoc \<Rightarrow> string) \<Rightarrow> string
     \<Rightarrow> ('sel, 'sdoc) SelectionSetParamOrFactory option \<Rightarrow> ('sel, 'v) Transform list option" where
  "selectionSetTransforms parseSelectionSet print fieldName selectionSet =
     (case selectionSet of
        None \<Rightarrow> None
      | Some s \<Rightarrow>
          if s = Param (SelString []) then None
          else Some [WrapQuery [fieldName]
                       (normalizeSelectionSetParamOrFactory parseSelectionSet print s) identical])"

definition commonDelegateOptions ::
  "('rs, 'ty) SdkField \<Rightarrow> ('v, 'info, 'sel, 'sdoc) SdkCallArgs
     \<Rightarrow> ('rs, 'v, 'ty, 'info) CommonDelegateOptions" where
  "commonDelegateOptions sf a =
     \<lparr> dl_schema = sf_rawSource sf,
       dl_rootValue = arg_root a,
       dl_operation = sf_operation sf,
       dl_fieldName = sf_fieldName sf,
       dl_returnType = sf_returnType sf,
       dl_context = arg_context a,
       dl_transformedSchema = sf_transformedSchema sf,
       dl_info = arg_info a \<rparr>"

definition singleDelegation ::
  "(string \<Rightarrow> js_error + 'sel) \<Rightarrow> ('sdoc \<Rightarrow> string) \<Rightarrow> ('rs, 'ty) SdkField
     \<Rightarrow> ('v, 'info, 'sel, 'sdoc) SdkCallArgs \<Rightarrow> ('rs, 'v, 'ty, 'info, 'sel) Delegation" where
  "singleDelegation parseSelectionSet print sf a =
     DelegateToSchema
       (CommonDelegateOptions.extend (commonDelegateOptions sf a)
          (DelegateToSchemaOptions.fields (arg_args a)
             (selectionSetTransforms parseSelectionSet print (sf_fieldName sf)
                (arg_selectionSet a))))"

text \<open>
  \<^verbatim>\<open>if (key && argsFromKeys)\<close> (line 220): \<^verbatim>\<open>key\<close> is a string, and the empty string is
  falsy like a missing key; \<^verbatim>\<open>argsFromKeys\<close> is a function, truthy whenever it is given.
\<close>

definition inContextSdkDelegation ::
  "(string \<Rightarrow> js_error + 'sel) \<Rightarrow> ('sdoc \<Rightarrow> string) \<Rightarrow> ('rs, 'ty) SdkField
     \<Rightarrow> ('v, 'info, 'sel, 'sdoc) SdkCallArgs \<Rightarrow> ('rs, 'v, 'ty, 'info, 'sel) Delegation" where
  "inContextSdkDelegation parseSelectionSet print sf a =
     (case (arg_key a, arg_argsFromKeys a) of
        (Some key, Some argsFromKeys) \<Rightarrow>
          if key \<noteq> [] then
            BatchDelegateToSchema
              (CommonDelegateOptions.extend (commonDelegateOptions sf a)
                 (BatchDelegateOptions.fields key argsFromKeys (arg_valuesFromResults a)
                    (selectionSetTransforms parseSelectionSet print (sf_fieldName sf)
                       (arg_selectionSet a))))
          else singleDelegation parseSelectionSet print sf a
      | _ \<Rightarrow> singleDelegation parseSelectionSet print sf a)"

text \<open>
  The callable: \<open>delegate\<close> is the delegation library, which answers a call with a
  result or an error. The batched branch returns what the library returns; the single
  branch passes the result through \<^verbatim>\<open>valuesFromResults\<close> when one is given (called with
  the result alone, the keys left out).
\<close>

definition inContextSdkField ::
  "(string \<Rightarrow> js_error + 'sel) \<Rightarrow> ('sdoc \<Rightarrow> string)
     \<Rightarrow> (('rs, 'v, 'ty, 'info, 'sel) Delegation \<Rightarrow> js_error + 'v)
     \<Rightarrow> ('rs, 'ty) SdkField \<Rightarrow> ('v, 'info, 'sel, 'sdoc) SdkCallArgs \<Rightarrow> js_error + 'v" where
  "inContextSdkField parseSelectionSet print delegate sf a =
     (case inContextSdkDelegation parseSelectionSet print sf a of
        BatchDelegateToSchema batchDelegationOptions \<Rightarrow>
          delegate (BatchDelegateToSchema batchDelegationOptions)
      | DelegateToSchema options \<Rightarrow>
          (case delegate (DelegateToSchema options) of
             Inl e \<Rightarrow> Inl e
           | Inr result \<Rightarrow>
               (case arg_valuesFromResults a of
                  Some valuesFromResults \<Rightarrow> Inr (valuesFromResults result None)
                | None \<Rightarrow> Inr result)))"

section \<open>Live query invalidation (get-mesh.ts, lines 128 to 150)\<close>

text \<open>One entry of \<^verbatim>\<open>options.liveQueryInvalidations\<close>.\<close>

record LiveQueryInvalidation =
  lq_field :: string
  lq_invalidate :: "string list"

text \<open>
  The map from field path to factories. \<open>getInterpolatedStringFactory\<close> (of
  \<^verbatim>\<open>@graphql-mesh/utils\<close>) compiles a template and is a parameter; \<^verbatim>\<open>Map.set\<close> replaces an
  earlier entry for the same field. The option is \<open>None\<close> when the configuration has
  no \<^verbatim>\<open>liveQueryInvalidations\<close>.
\<close>

definition liveQueryInvalidationFactoryMap ::
  "(string \<Rightarrow> 'f) \<Rightarrow> LiveQueryInvalidation list option \<Rightarrow> (string \<Rightarrow> 'f list option)" where
  "liveQueryInvalidationFactoryMap getInterpolatedStringFactory liveQueryInvalidations =
     fold (\<lambda>liveQueryInvalidation m.
             m(lq_field liveQueryInvalidation \<mapsto>
                 map getInterpolatedStringFactory (lq_invalidate liveQueryInvalidation)))
          (case liveQueryInvalidations of None \<Rightarrow> [] | Some l \<Rightarrow> l)
          Map.empty"

text \<open>
  The payload of a \<^verbatim>\<open>resolverDone\<close> event. Of \<^verbatim>\<open>info\<close> the subscriber reads
  \<^verbatim>\<open>parentType\<close> (and its \<^verbatim>\<open>name\<close>) and \<^verbatim>\<open>fieldName\<close>; every level may be missing, which
  the optional chaining \<^verbatim>\<open>resolverData?.info?.parentType\<close> allows for. \<open>rd_rest\<close> holds
  the other keys of the resolver data (\<^verbatim>\<open>root\<close>, \<^verbatim>\<open>args\<close>, \<^verbatim>\<open>context\<close>).
\<close>

record ParentType =
  pt_name :: string

record ResolveInfo =
  ri_parentType :: "ParentType option"
  ri_fieldName :: "string option"

record 'v ResolverData =
  rd_info :: "ResolveInfo option"
  rd_rest :: 'v

record ('v, 'r) ResolverDoneEvent =
  ev_result :: 'r
  ev_resolverData :: "'v ResolverData option"

text \<open>
  The subscriber. A factory takes the object \<^verbatim>\<open>{ ...resolverData, result }\<close>, given here
  as the pair of the resolver data and the result. The live query store is the list
  of the batches \<^verbatim>\<open>invalidate\<close> has been called with, oldest first. The guard of line
  140 is a truthiness test: a missing \<^verbatim>\<open>fieldName\<close> and the empty string both fail it.
\<close>

definition resolverDoneSubscriber ::
  "(string \<Rightarrow> ('v ResolverData \<times> 'r \<Rightarrow> string) list option) \<Rightarrow> ('v, 'r) ResolverDoneEvent
     \<Rightarrow> string list list \<Rightarrow> string list list" where
  "resolverDoneSubscriber factoryMap ev invalidated =
     (case ev_resolverData ev of
        None \<Rightarrow> invalidated
      | Some resolverData \<Rightarrow>
          (case rd_info resolverData of
             None \<Rightarrow> invalidated
           | Some info \<Rightarrow>
               (case (ri_parentType info, ri_fieldName info) of
                  (Some parentType, Some fieldName) \<Rightarrow>
                    if fieldName \<noteq> [] then
                      (let path = pt_name parentType @ ''.'' @ fieldName in
                       case factoryMap path of
                         Some invalidationPathFactories \<Rightarrow>
                           invalidated @
                             [map (\<lambda>invalidationPathFactory.
                                     invalidationPathFactory (resolverData, ev_result ev))
                                  invalidationPathFactories]
                       | None \<Rightarrow> invalidated)
                    else invalidated
                | _ \<Rightarrow> invalidated)))"

section \<open>Execution facade (get-mesh.ts, lines 281 to 326)\<close>

text \<open>\<^verbatim>\<open>documentOrSDL\<close>: a string of GraphQL or a parsed document.\<close>

datatype 'doc GraphQLOperation = SDL string | Document 'doc

text \<open>
  What the code reads of the operation definition \<^verbatim>\<open>getOperationAST\<close> returns: its
  \<^verbatim>\<open>operation\<close> and \<^verbatim>\<open>name?.value\<close>.
\<close>

record OperationDefinition =
  od_operation :: OperationTypeNode
  od_name :: "string option"

record ('doc, 'v, 'usch) ExecutionArgs =
  ea_document :: 'doc
  ea_contextValue :: 'v
  ea_rootValue :: 'v
  ea_variableValues :: 'v
  ea_schema :: 'usch
  ea_operationName :: "string option"

text \<open>
  The collaborators of \<^verbatim>\<open>meshExecute\<close>: \<open>getDocumentNodeAndSDL\<close> (of
  \<^verbatim>\<open>@graphql-mesh/utils\<close>; parsing may throw), \<open>getOperationAST\<close> (of \<^verbatim>\<open>graphql\<close>, called
  with the document alone; it returns \<^verbatim>\<open>null\<close> when it finds no single operation), the
  executor made by the live query store, the unified schema the closure holds, and the
  empty object that stands in for a missing variables, context or root value.
\<close>

record ('doc, 'v, 'usch, 'res) ExecuteEnv =
  getDocumentNodeAndSDL :: "'doc GraphQLOperation \<Rightarrow> js_error + 'doc \<times> string"
  getOperationAST :: "'doc \<Rightarrow> OperationDefinition option"
  liveQueryExecute :: "('doc, 'v, 'usch) ExecutionArgs \<Rightarrow> js_error + 'res"
  unifiedSchema :: 'usch
  emptyObject :: 'v

text \<open>
  Lines 289 to 292. \<^verbatim>\<open>!operationName\<close> holds for a missing name and for the empty
  string. Reading \<^verbatim>\<open>operationAst.name\<close> of \<^verbatim>\<open>null\<close> throws.
\<close>

definition resolveOperationName ::
  "('doc \<Rightarrow> OperationDefinition option) \<Rightarrow> 'doc \<Rightarrow> string option \<Rightarrow> js_error + string option" where
  "resolveOperationName getOpAST document operationName =
     (if operationName \<noteq> None \<and> operationName \<noteq> Some [] then Inr operationName
      else
        (case getOpAST document of
           None \<Rightarrow> Inl (TypeError ''Cannot read properties of null'')
         | Some operationAst \<Rightarrow> Inr (od_name operationAst)))"

text \<open>
  \<^verbatim>\<open>executionParams\<close> (lines 295 to 302). A variables, context or root value that is
  left out takes its default, the empty object.
\<close>

definition executionArgs ::
  "('doc, 'v, 'usch, 'res) ExecuteEnv \<Rightarrow> 'doc \<Rightarrow> 'v option \<Rightarrow> 'v option \<Rightarrow> 'v option
     \<Rightarrow> string option \<Rightarrow> ('doc, 'v, 'usch) ExecutionArgs" where
  "executionArgs env document variableValues contextValue rootValue operationName =
     \<lparr> ea_document = document,
       ea_contextValue = (case contextValue of None \<Rightarrow> emptyObject env | Some c \<Rightarrow> c),
       ea_rootValue = (case rootValue of None \<Rightarrow> emptyObject env | Some r \<Rightarrow> r),
       ea_variableValues = (case variableValues of None \<Rightarrow> emptyObject env | Some v \<Rightarrow> v),
       ea_schema = unifiedSchema env,
       ea_operationName = operationName \<rparr>"

text \<open>
  The arguments \<^verbatim>\<open>meshExecute\<close> hands to the executor, or the error thrown before it
  is reached.
\<close>

definition executionParams ::
  "('doc, 'v, 'usch, 'res) ExecuteEnv \<Rightarrow> 'doc GraphQLOperation \<Rightarrow> 'v option \<Rightarrow> 'v option
     \<Rightarrow> 'v option \<Rightarrow> string option \<Rightarrow> js_error + ('doc, 'v, 'usch) ExecutionArgs" where
  "executionParams env documentOrSDL variableValues contextValue rootValue operationName =
     (case getDocumentNodeAndSDL env documentOrSDL of
        Inl e \<Rightarrow> Inl e
      | Inr (document, sdl) \<Rightarrow>
          (case resolveOperationName (getOperationAST env) document operationName of
             Inl e \<Rightarrow> Inl e
           | Inr operationName' \<Rightarrow>
               Inr (executionArgs env document variableValues contextValue rootValue
                      operationName')))"

definition meshExecute ::
  "('doc, 'v, 'usch, 'res) ExecuteEnv \<Rightarrow> 'doc GraphQLOperation \<Rightarrow> 'v option \<Rightarrow> 'v option
     \<Rightarrow> 'v option \<Rightarrow> string option \<Rightarrow> js_error + 'res" where
  "meshExecute env documentOrSDL variableValues contextValue rootValue operationName =
     (case executionParams env documentOrSDL variableValues contextValue rootValue
             operationName of
        Inl e \<Rightarrow> Inl e
      | Inr params \<Rightarrow> liveQueryExecute env params)"

text \<open>
  Modelled from the spec: \<^verbatim>\<open>getDocumentNodeAndSDL\<close> of \<^verbatim>\<open>@graphql-mesh/utils\<close>, whose code
  is not among the sources. The spec says the facade "normalizes the input operation
  to a parsed document (parsing an SDL string if needed)": a string is parsed, a
  document is taken as it is. The second component is the text, printed from the
  document when the input was one.
\<close>

definition getDocumentNodeAndSDL_spec ::
  "(string \<Rightarrow> js_error + 'doc) \<Rightarrow> ('doc \<Rightarrow> string) \<Rightarrow> 'doc GraphQLOperation
     \<Rightarrow> js_error + 'doc \<times> string" where
  "getDocumentNodeAndSDL_spec parse printDocument documentOrSDL =
     (case documentOrSDL of
        SDL s \<Rightarrow> (case parse s of Inl e \<Rightarrow> Inl e | Inr d \<Rightarrow> Inr (d, s))
      | Document d \<Rightarrow> Inr (d, printDocument d))"

section \<open>SDK requester (get-mesh.ts, lines 363 to 411)\<close>

text \<open>
  An execution result. A key of the object is \<open>None\<close> when the object does not have it
  (\<^verbatim>\<open>'data' in executionResult\<close> is false), \<open>Some None\<close> when it holds \<^verbatim>\<open>null\<close> or
  \<^verbatim>\<open>undefined\<close>, and \<open>Some (Some v)\<close> when it holds a value. Data is an object and the
  errors are an array, so a value that is there is truthy (an empty array too).
\<close>

record ('data, 'gerr) ExecutionResult =
  er_data :: "'data option option"
  er_errors :: "'gerr list option option"

text \<open>Reading a key: \<^verbatim>\<open>undefined\<close> when the object does not have it.\<close>

definition readKey :: "'a option option \<Rightarrow> 'a option" where
  "readKey k = (case k of None \<Rightarrow> None | Some v \<Rightarrow> v)"

text \<open>
  What the requester throws: an error of the engine or a collaborator, or a
  \<^verbatim>\<open>GraphQLMeshSdkError\<close> with the errors it wraps, the document, the variables, the
  data and the message.
\<close>

datatype ('data, 'gerr, 'doc, 'v) SdkFailure =
  Thrown js_error
| GraphQLMeshSdkError "'gerr list" 'doc 'v "'data option" string

fun operationTypeText :: "OperationTypeNode \<Rightarrow> string" where
  "operationTypeText Query = ''query''"
| "operationTypeText Mutation = ''mutation''"
| "operationTypeText Subscription = ''subscription''"

text \<open>
  The constructor (lines 364 to 374). The message is built before \<^verbatim>\<open>super\<close> is called,
  from \<^verbatim>\<open>getOperationAST(document).operation\<close> and
  \<^verbatim>\<open>getOperationAST(document).name?.value || ''\<close>; when \<^verbatim>\<open>getOperationAST\<close> returns
  \<^verbatim>\<open>null\<close> the first read throws. \<^verbatim>\<open>super\<close> is the constructor of \<^verbatim>\<open>AggregateError\<close>,
  which walks through the errors it is given: errors that are \<^verbatim>\<open>undefined\<close> make it
  throw a \<open>TypeError\<close>.
\<close>

definition newGraphQLMeshSdkError ::
  "('doc \<Rightarrow> OperationDefinition option) \<Rightarrow> 'gerr list option \<Rightarrow> 'doc \<Rightarrow> 'v \<Rightarrow> 'data option
     \<Rightarrow> ('data, 'gerr, 'doc, 'v) SdkFailure" where
  "newGraphQLMeshSdkError getOpAST errors document variables data =
     (case getOpAST document of
        None \<Rightarrow> Thrown (TypeError ''Cannot read properties of null'')
      | Some operationAst \<Rightarrow>
          (case errors of
             None \<Rightarrow> Thrown (TypeError ''undefined is not iterable'')
           | Some errs \<Rightarrow>
               GraphQLMeshSdkError errs document variables data
                 (''GraphQL Mesh SDK '' @ operationTypeText (od_operation operationAst) @ '' '' @
                    (case od_name operationAst of None \<Rightarrow> [] | Some n \<Rightarrow> n) @ '' failed!'')))"

text \<open>Lines 392 to 410: what the requester does with an execution result.\<close>

definition requesterOutcome ::
  "('doc \<Rightarrow> OperationDefinition option) \<Rightarrow> 'doc \<Rightarrow> 'v \<Rightarrow> ('data, 'gerr) ExecutionResult
     \<Rightarrow> ('data, 'gerr, 'doc, 'v) SdkFailure + 'data" where
  "requesterOutcome getOpAST document variables executionResult =
     (if er_data executionResult \<noteq> None \<or> er_errors executionResult \<noteq> None then
        (case (readKey (er_data executionResult), readKey (er_errors executionResult)) of
           (Some data, None) \<Rightarrow> Inr data
         | (data, errors) \<Rightarrow>
             Inl (newGraphQLMeshSdkError getOpAST errors document variables data))
      else Inl (Thrown (Error ''Not implemented'')))"

definition localRequester ::
  "('doc, 'v, 'usch, ('data, 'gerr) ExecutionResult) ExecuteEnv \<Rightarrow> 'doc \<Rightarrow> 'v
     \<Rightarrow> 'v option \<Rightarrow> 'v option \<Rightarrow> string option
     \<Rightarrow> ('data, 'gerr, 'doc, 'v) SdkFailure + 'data" where
  "localRequester env document variables contextValue rootValue operationName =
     (case meshExecute env (Document document) (Some variables) contextValue rootValue
             operationName of
        Inl e \<Rightarrow> Inl (Thrown e)
      | Inr executionResult \<Rightarrow>
          requesterOutcome (getOperationAST env) document variables executionResult)"

section \<open>The library's operation lookup\<close>

text \<open>
  \<^verbatim>\<open>getOperationAST(document)\<close> of the \<^verbatim>\<open>graphql\<close> package (imported at line 10), for
  documents given as the list of their definitions. Called without an operation name
  it walks the definitions, remembers the first operation, and returns \<^verbatim>\<open>null\<close> as
  soon as it meets a second one; a document without any operation gives \<^verbatim>\<open>null\<close> too.
  It instantiates the parameter \<open>getOperationAST\<close> in the examples.
\<close>

datatype Definition = OperationDef OperationDefinition | FragmentDef string

fun soleOperation :: "Definition list \<Rightarrow> OperationDefinition option \<Rightarrow> OperationDefinition option" where
  "soleOperation [] operation = operation"
| "soleOperation (FragmentDef f # ds) operation = soleOperation ds operation"
| "soleOperation (OperationDef d # ds) operation =
     (case operation of Some first \<Rightarrow> None | None \<Rightarrow> soleOperation ds (Some d))"

definition graphqlGetOperationAST :: "Definition list \<Rightarrow> OperationDefinition option" where
  "graphqlGetOperationAST definitions = soleOperation definitions None"

section \<open>Neo4J handler (handlers/neo4j/src/index.ts)\<close>

record Neo4JConfig =
  cfg_url :: string
  cfg_username :: string
  cfg_password :: string
  cfg_database :: "string option"
  cfg_cacheIntrospection :: bool
  cfg_alwaysIncludeRelationships :: "bool option"

text \<open>
  A driver object. \<open>drv_id\<close> is the object's identity: the number of drivers the handler
  had created before this one, so that two creations never give the same object.
\<close>

record Driver =
  drv_id :: nat
  drv_url :: string
  drv_auth :: "string \<times> string"

text \<open>
  The handler instance together with what it has done to its collaborators: the
  private \<^verbatim>\<open>driver\<close> field, the number of drivers it has created with \<^verbatim>\<open>neo4j.driver\<close>,
  the number of times it has subscribed a handler to the \<^verbatim>\<open>destroy\<close> event, and the
  cache it was given.
\<close>

record Neo4JHandler =
  nh_name :: string
  nh_config :: Neo4JConfig
  nh_driver :: "Driver option"
  nh_driversCreated :: nat
  nh_destroySubscriptions :: nat
  nh_cache :: "string \<Rightarrow> string option"

text \<open>The constructor (lines 11 to 16) stores its arguments; \<^verbatim>\<open>driver\<close> starts undefined.\<close>

definition newNeo4JHandler :: "string \<Rightarrow> (string \<Rightarrow> string option) \<Rightarrow> Neo4JConfig \<Rightarrow> Neo4JHandler" where
  "newNeo4JHandler name' cache config =
     \<lparr> nh_name = name', nh_config = config, nh_driver = None, nh_driversCreated = 0,
       nh_destroySubscriptions = 0, nh_cache = cache \<rparr>"

text \<open>
  \<^verbatim>\<open>getDriver\<close> (lines 20 to 26). \<open>neo4j_driver\<close> says whether
  \<^verbatim>\<open>neo4j.driver(url, auth)\<close> accepts its arguments or throws; when it throws, the field stays unset and nothing is
  subscribed. \<open>newDriver\<close> is the object a successful call builds.
\<close>

definition newDriver :: "Neo4JHandler \<Rightarrow> Driver" where
  "newDriver this =
     \<lparr> drv_id = nh_driversCreated this,
       drv_url = cfg_url (nh_config this),
       drv_auth = (cfg_username (nh_config this), cfg_password (nh_config this)) \<rparr>"

definition getDriver ::
  "(string \<Rightarrow> string \<times> string \<Rightarrow> js_error option) \<Rightarrow> Neo4JHandler
     \<Rightarrow> (js_error + Driver) \<times> Neo4JHandler" where
  "getDriver neo4j_driver this =
     (case nh_driver this of
        Some driver \<Rightarrow> (Inr driver, this)
      | None \<Rightarrow>
          (case neo4j_driver (cfg_url (nh_config this))
                  (cfg_username (nh_config this), cfg_password (nh_config this)) of
             Some e \<Rightarrow> (Inl e, this)
           | None \<Rightarrow>
               (Inr (newDriver this),
                this \<lparr> nh_driver := Some (newDriver this),
                       nh_driversCreated := nh_driversCreated this + 1,
                       nh_destroySubscriptions := nh_destroySubscriptions this + 1 \<rparr>)))"

text \<open>A sequence of \<open>n\<close> calls of \<^verbatim>\<open>getDriver\<close> on one instance, with what each returned.\<close>

fun getDriverCalls ::
  "(string \<Rightarrow> string \<times> string \<Rightarrow> js_error option) \<Rightarrow> nat \<Rightarrow> Neo4JHandler
     \<Rightarrow> (js_error + Driver) list \<times> Neo4JHandler" where
  "getDriverCalls neo4j_driver 0 this = ([], this)"
| "getDriverCalls neo4j_driver (Suc n) this =
     (case getDriver neo4j_driver this of
        (r, this') \<Rightarrow>
          (case getDriverCalls neo4j_driver n this' of (rs, this'') \<Rightarrow> (r # rs, this'')))"

text \<open>
  The collaborators of \<^verbatim>\<open>getMeshSource\<close>: \<^verbatim>\<open>neo4j.driver\<close>, \<^verbatim>\<open>inferSchema\<close> (given the
  driver and \<^verbatim>\<open>alwaysIncludeRelationships\<close>, it returns the type definitions or
  rejects) and \<^verbatim>\<open>makeAugmentedSchema\<close> (it may throw).
\<close>

record 'sch Neo4JEnv =
  neo4jDriver :: "string \<Rightarrow> string \<times> string \<Rightarrow> js_error option"
  inferSchema :: "Driver \<Rightarrow> bool option \<Rightarrow> js_error + string"
  makeAugmentedSchema :: "string \<Rightarrow> js_error + 'sch"

text \<open>
  The \<^verbatim>\<open>contextBuilder\<close> closure of the returned object. It is a function of the handler
  alone, so one value stands for it; \<open>callContextBuilder\<close> is its body.
\<close>

datatype Neo4JContextBuilder = ContextBuilder

definition callContextBuilder ::
  "'sch Neo4JEnv \<Rightarrow> Neo4JHandler \<Rightarrow> (js_error + Driver \<times> string option) \<times> Neo4JHandler" where
  "callContextBuilder env this =
     (case getDriver (neo4jDriver env) this of
        (Inl e, this') \<Rightarrow> (Inl e, this')
      | (Inr driver, this') \<Rightarrow> (Inr (driver, cfg_database (nh_config this')), this'))"

text \<open>
  Lines 29 to 46: the type definitions, from the cache when \<^verbatim>\<open>cacheIntrospection\<close> is
  set and the cache holds a non-empty string under the key, otherwise inferred through
  the driver (and then stored when \<^verbatim>\<open>cacheIntrospection\<close> is set).
\<close>

definition inferTypeDefs ::
  "'sch Neo4JEnv \<Rightarrow> Neo4JHandler \<Rightarrow> (js_error + string) \<times> Neo4JHandler" where
  "inferTypeDefs env this =
     (case getDriver (neo4jDriver env) this of
        (Inl e, this') \<Rightarrow> (Inl e, this')
      | (Inr driver, this') \<Rightarrow>
          (case inferSchema env driver (cfg_alwaysIncludeRelationships (nh_config this')) of
             Inl e \<Rightarrow> (Inl e, this')
           | Inr typeDefs \<Rightarrow>
               (Inr typeDefs,
                if cfg_cacheIntrospection (nh_config this') then
                  this' \<lparr> nh_cache :=
                            (nh_cache this')(nh_name this' @ ''_introspection'' \<mapsto> typeDefs) \<rparr>
                else this')))"

definition neo4jTypeDefs ::
  "'sch Neo4JEnv \<Rightarrow> Neo4JHandler \<Rightarrow> (js_error + string) \<times> Neo4JHandler" where
  "neo4jTypeDefs env this =
     (case (if cfg_cacheIntrospection (nh_config this)
            then nh_cache this (nh_name this @ ''_introspection'') else None) of
        Some typeDefs \<Rightarrow>
          if typeDefs \<noteq> [] then (Inr typeDefs, this) else inferTypeDefs env this
      | None \<Rightarrow> inferTypeDefs env this)"

text \<open>
  \<^verbatim>\<open>getMeshSource\<close> (lines 28 to 54). The object it returns has the two keys \<^verbatim>\<open>schema\<close>
  and \<^verbatim>\<open>contextBuilder\<close>.
\<close>

definition neo4jGetMeshSource ::
  "'sch Neo4JEnv \<Rightarrow> Neo4JHandler
     \<Rightarrow> (js_error + ('sch, 'ex, Neo4JContextBuilder) MeshSource) \<times> Neo4JHandler" where
  "neo4jGetMeshSource env this =
     (case neo4jTypeDefs env this of
        (Inl e, this') \<Rightarrow> (Inl e, this')
      | (Inr typeDefs, this') \<Rightarrow>
          (case makeAugmentedSchema env typeDefs of
             Inl e \<Rightarrow> (Inl e, this')
           | Inr schema \<Rightarrow>
               (Inr \<lparr> ms_schema = schema, ms_executor = None, ms_contextVariables = None,
                      ms_contextBuilder = Some ContextBuilder, ms_batch = None \<rparr>,
                this')))"

section \<open>Example configurations\<close>

text \<open>
  The handlers of the examples: handler 0 resolves to a source without a \<^verbatim>\<open>batch\<close>
  key, handler 1 to a source with \<^verbatim>\<open>batch: false\<close>, handler 3 rejects with \<^verbatim>\<open>undefined\<close>,
  and every other handler rejects with an error.
  The transforms \<open>bare\<close> and \<open>broken\<close> are no-wrap transforms; applying \<open>broken\<close>
  throws. The merger of the examples gives every raw source a sub-schema.
\<close>

definition demoEnv :: "(string, nat, unit, nat, string) SourceEnv" where
  "demoEnv =
     \<lparr> getMeshSource = (\<lambda>h.
         if h = 0 then
           Inr \<lparr> ms_schema = ''books'', ms_executor = Some 7, ms_contextVariables = None,
                 ms_contextBuilder = None, ms_batch = None \<rparr>
         else if h = 1 then
           Inr \<lparr> ms_schema = ''authors'', ms_executor = None,
                 ms_contextVariables = Some [''token''],
                 ms_contextBuilder = None, ms_batch = Some (Some False) \<rparr>
         else if h = 3 then Inl Nullish
         else Inl (ErrorObject (Error ''connection refused''))),
       groupTransforms = (\<lambda>ts.
         (filter (\<lambda>t. t \<noteq> ''bare'' \<and> t \<noteq> ''broken'') ts,
          filter (\<lambda>t. t = ''bare'' \<or> t = ''broken'') ts)),
       applySchemaTransforms = (\<lambda>sch source ts.
         if ''broken'' \<in> set ts then Inl (ErrorObject (Error ''transform failed''))
         else Inr (sch @ concat ts)) \<rparr>"

definition booksSource :: "(nat, string, unit) ApiSource" where
  "booksSource = \<lparr> name = ''Books'', handler = 0, transforms = [], merge = None \<rparr>"

definition authorsSource :: "(nat, string, unit) ApiSource" where
  "authorsSource = \<lparr> name = ''Authors'', handler = 1, transforms = [''bare''], merge = None \<rparr>"

definition reviewsSource :: "(nat, string, unit) ApiSource" where
  "reviewsSource = \<lparr> name = ''Reviews'', handler = 2, transforms = [], merge = None \<rparr>"

definition silentSource :: "(nat, string, unit) ApiSource" where
  "silentSource = \<lparr> name = ''Silent'', handler = 3, transforms = [], merge = None \<rparr>"

definition brokenSource :: "(nat, string, unit) ApiSource" where
  "brokenSource = \<lparr> name = ''Broken'', handler = 0, transforms = [''broken''], merge = None \<rparr>"

definition demoMerger ::
  "(string, nat, nat, string, unit) RawSourceOutput list \<Rightarrow> js_error + (string, string) UnifiedSchema" where
  "demoMerger rs =
     Inr \<lparr> us_schema = concat (map rs_schema rs),
           sourceMap = (\<lambda>i. if i < length rs then
                                Some \<lparr> queryType = Some \<lparr> rt_name = ''Query'',
                                                          rt_fields = [(rs_name (rs ! i), ''String'')] \<rparr>,
                                       mutationType = None, subscriptionType = None \<rparr>
                              else None) \<rparr>"

definition demoHooks ::
  "string \<Rightarrow> (string \<Rightarrow> ((string, nat, nat, string, unit) RawSourceOutput, string) RawSourceContext option) \<Rightarrow> string" where
  "demoHooks sch ctx = sch"

text \<open>
  A toy parser and printer for the examples: a selection set is its text without
  blanks, and a document is the text between the braces.
\<close>

definition demoParse :: "string \<Rightarrow> js_error + string" where
  "demoParse s =
     (if s = [] then Inl (Error ''Syntax Error'') else Inr (filter (\<lambda>c. c \<noteq> CHR '' '') s))"

definition demoPrint :: "string \<Rightarrow> string" where
  "demoPrint d = ''{ '' @ d @ '' }''"

definition demoSdkField :: "(string, string) SdkField" where
  "demoSdkField =
     \<lparr> sf_rawSource = ''Books'',
       sf_transformedSchema =
         \<lparr> queryType = Some \<lparr> rt_name = ''Query'', rt_fields = [(''book'', ''Book'')] \<rparr>,
           mutationType = None, subscriptionType = None \<rparr>,
       sf_operation = Query,
       sf_fieldName = ''book'',
       sf_returnType = ''Book'' \<rparr>"

definition demoCall :: "(string, unit, string, string) SdkCallArgs" where
  "demoCall =
     \<lparr> arg_root = ''root'', arg_args = ''id: 1'', arg_context = ''context'', arg_info = (),
       arg_selectionSet = None, arg_key = Some ''1'',
       arg_argsFromKeys = Some (\<lambda>keys. ''ids: '' @ concat keys),
       arg_valuesFromResults = None \<rparr>"

definition demoDelegate :: "(string, string, string, unit, string) Delegation \<Rightarrow> js_error + string" where
  "demoDelegate d =
     (case d of
        DelegateToSchema opts \<Rightarrow> Inr (''single '' @ dl_args opts)
      | BatchDelegateToSchema opts \<Rightarrow> Inr (''batch '' @ bd_argsFromKeys opts [bd_key opts]))"

text \<open>
  An invalidation rule for \<open>Query.book\<close> with two templates, and a toy template compiler
  that puts the other keys of the resolver data after the template.
\<close>

definition demoInvalidations :: "LiveQueryInvalidation list" where
  "demoInvalidations =
     [\<lparr> lq_field = ''Query.book'', lq_invalidate = [''Query.books'', ''Book:''] \<rparr>]"

definition demoFactory :: "string \<Rightarrow> (string ResolverData \<times> string \<Rightarrow> string)" where
  "demoFactory template = (\<lambda>(resolverData, result). template @ rd_rest resolverData)"

definition demoEvent :: "(string, string) ResolverDoneEvent" where
  "demoEvent =
     \<lparr> ev_result = ''a book'',
       ev_resolverData =
         Some \<lparr> rd_info = Some \<lparr> ri_parentType = Some \<lparr> pt_name = ''Query'' \<rparr>,
                                 ri_fieldName = Some ''book'' \<rparr>,
                rd_rest = ''42'' \<rparr> \<rparr>"

text \<open>
  A document with the two operations \<open>A\<close> and \<open>B\<close>, a document with the one operation
  \<open>A\<close>, and an execution environment over the library's operation lookup whose
  executor answers every request with \<^verbatim>\<open>{ data: null, errors: ['boom'] }\<close>.
\<close>

definition twoOperations :: "Definition list" where
  "twoOperations =
     [OperationDef \<lparr> od_operation = Query, od_name = Some ''A'' \<rparr>,
      OperationDef \<lparr> od_operation = Query, od_name = Some ''B'' \<rparr>]"

definition oneOperation :: "Definition list" where
  "oneOperation = [OperationDef \<lparr> od_operation = Query, od_name = Some ''A'' \<rparr>]"

definition demoExecuteEnv ::
  "(Definition list, string, string, (string, string) ExecutionResult) ExecuteEnv" where
  "demoExecuteEnv =
     \<lparr> getDocumentNodeAndSDL =
         getDocumentNodeAndSDL_spec (\<lambda>s. Inl (Error ''Syntax Error'')) (\<lambda>d. ''printed''),
       getOperationAST = graphqlGetOperationAST,
       liveQueryExecute = (\<lambda>params. Inr \<lparr> er_data = Some None, er_errors = Some (Some [''boom'']) \<rparr>),
       unifiedSchema = ''unified'',
       emptyObject = ''{}'' \<rparr>"

text \<open>A Neo4J handler whose collaborators all succeed.\<close>

definition demoNeo4JConfig :: Neo4JConfig where
  "demoNeo4JConfig =
     \<lparr> cfg_url = ''bolt://localhost:7687'', cfg_username = ''neo4j'', cfg_password = ''secret'',
       cfg_database = None, cfg_cacheIntrospection = False,
       cfg_alwaysIncludeRelationships = None \<rparr>"

definition demoNeo4JEnv :: "string Neo4JEnv" where
  "demoNeo4JEnv =
     \<lparr> neo4jDriver = (\<lambda>url auth. if url = [] then Some (Error ''Unknown scheme'') else None),
       inferSchema = (\<lambda>driver always. Inr ''type Movie { title: String }''),
       makeAugmentedSchema = (\<lambda>typeDefs. Inr (''augmented '' @ typeDefs)) \<rparr>"

section \<open>Properties of the source registry\<close>

lemma fold_startSource:
  "fold startSource xs st = st \<lparr> invoked := invoked st @ map handler xs \<rparr>"
  by (induction xs arbitrary: st) (simp_all add: startSource_def)

lemma settleSource_Inl:
  "sourceOutcome env a = Inl e \<Longrightarrow> settleSource env a st = sourceFailed a e st"
  by (simp add: settleSource_def)

lemma settleSource_Inr:
  "sourceOutcome env a = Inr r \<Longrightarrow>
     settleSource env a st = st \<lparr> rawSources := rawSources st @ [r] \<rparr>"
  by (simp add: settleSource_def)

lemma registered_Nil: "registered env [] = []"
  by (simp add: registered_def)

lemma failureLines_Nil: "failureLines env [] = []"
  by (simp add: failureLines_def)

lemma registered_Cons:
  "registered env (a # xs) =
     (case sourceOutcome env a of Inl e \<Rightarrow> [] | Inr r \<Rightarrow> [r]) @ registered env xs"
  by (simp add: registered_def)

lemma failureLines_Cons:
  "failureLines env (a # xs) =
     (case sourceOutcome env a of
        Inl e \<Rightarrow> (case reportText e of None \<Rightarrow> [] | Some text' \<Rightarrow> [failureLine a text'])
      | Inr r \<Rightarrow> []) @ failureLines env xs"
  by (simp add: failureLines_def)

lemma reportText_None: "reportText e = None \<longleftrightarrow> e = Nullish"
  by (cases e) simp_all

lemma fold_settleSource:
  "fold (settleSource env) xs st =
     st \<lparr> rawSources := rawSources st @ registered env xs,
          errorLog := errorLog st @ failureLines env xs,
          failed := (failed st \<or>
                     (\<exists>a \<in> set xs. \<exists>e. sourceOutcome env a = Inl e \<and> e \<noteq> Nullish)) \<rparr>"
proof (induction xs arbitrary: st)
  case Nil
  show ?case by (simp add: registered_Nil failureLines_Nil)
next
  case (Cons a xs)
  show ?case
  proof (cases "sourceOutcome env a")
    case (Inl e)
    show ?thesis
    proof (cases "reportText e")
      case None
      then have "e = Nullish" by (simp add: reportText_None)
      with Inl None show ?thesis
        by (simp add: Cons.IH settleSource_Inl sourceFailed_def registered_Cons
              failureLines_Cons)
    next
      case (Some text')
      then have "e \<noteq> Nullish" by (auto simp: reportText_None [symmetric])
      with Inl Some show ?thesis
        by (simp add: Cons.IH settleSource_Inl sourceFailed_def registered_Cons
              failureLines_Cons)
    qed
  next
    case (Inr r)
    then show ?thesis
      by (simp add: Cons.IH settleSource_Inr registered_Cons failureLines_Cons)
  qed
qed

lemma buildSources_eq:
  "buildSources env sources settled =
     \<lparr> rawSources = registered env settled,
       failed = (\<exists>a \<in> set settled. \<exists>e. sourceOutcome env a = Inl e \<and> e \<noteq> Nullish),
       invoked = map handler sources,
       errorLog = failureLines env settled \<rparr>"
  by (simp add: buildSources_def fold_settleSource fold_startSource initialRegistry_def)





lemma sourceOutcome_Inr:
  "sourceOutcome env a = Inr r \<Longrightarrow>
     \<exists>source apiSchema wrapT. getMeshSource env (handler a) = Inr source \<and>
        r = mkRawSource a source apiSchema wrapT"
  by (auto simp: sourceOutcome_def split: sum.splits prod.splits if_splits)

lemma registered_all_ok:
  "\<forall>a \<in> set xs. \<not> isl (sourceOutcome env a) \<Longrightarrow>
     map rs_name (registered env xs) = map name xs \<and> length (registered env xs) = length xs"
proof (induction xs)
  case Nil
  show ?case by (simp add: registered_def)
next
  case (Cons a xs)
  then obtain r where r: "sourceOutcome env a = Inr r" by (cases "sourceOutcome env a") auto
  from sourceOutcome_Inr[OF r] have "rs_name r = name a" by (auto simp: mkRawSource_def)
  with Cons r show ?case by (simp add: registered_def)
qed

lemma sourceOutcome_batch:
  "sourceOutcome env a = Inr r \<Longrightarrow>
     \<exists>source. getMeshSource env (handler a) = Inr source \<and> rs_name r = name a \<and>
        rs_handler r = handler a \<and>
        rs_batch r = (case ms_batch source of None \<Rightarrow> Some True | Some b \<Rightarrow> b)"
  by (auto simp: sourceOutcome_def mkRawSource_def split: sum.splits prod.splits if_splits)

lemma set_registered:
  "set (registered env xs) = {r. \<exists>a \<in> set xs. sourceOutcome env a = Inr r}"
  by (induction xs) (auto simp: registered_Cons registered_Nil split: sum.splits)


text \<open>
  Claim C10. A raw source is registered for every source whose \<^verbatim>\<open>try\<close> block completes,
  and every registered raw source comes from such a source: its \<^verbatim>\<open>batch\<close> is \<^verbatim>\<open>true\<close>
  when the handler's result has no \<^verbatim>\<open>batch\<close> key, and the value stored under the key,
  unchanged, when it has one. This holds for every order in which the handlers settle.
\<close>

theorem batch_default:
  assumes "mset settled = mset sources"
  shows "(\<forall>a \<in> set sources. \<forall>r. sourceOutcome env a = Inr r \<longrightarrow>
            r \<in> set (rawSources (buildSources env sources settled)))
       \<and> (\<forall>r \<in> set (rawSources (buildSources env sources settled)).
            \<exists>a \<in> set sources. \<exists>source.
              getMeshSource env (handler a) = Inr source \<and> rs_name r = name a \<and>
              rs_handler r = handler a \<and>
              (ms_batch source = None \<longrightarrow> rs_batch r = Some True) \<and>
              (\<forall>b. ms_batch source = Some b \<longrightarrow> rs_batch r = b))"
proof -
  have s: "set settled = set sources" using assms by (metis set_mset_mset)
  have raw: "set (rawSources (buildSources env sources settled)) =
               {r. \<exists>a \<in> set sources. sourceOutcome env a = Inr r}"
    by (simp add: buildSources_eq set_registered s)
  show ?thesis
  proof (intro conjI ballI allI impI)
    fix a r assume "a \<in> set sources" "sourceOutcome env a = Inr r"
    then show "r \<in> set (rawSources (buildSources env sources settled))"
      unfolding raw by blast
  next
    fix r assume "r \<in> set (rawSources (buildSources env sources settled))"
    then obtain a where a: "a \<in> set sources" "sourceOutcome env a = Inr r"
      unfolding raw by blast
    from sourceOutcome_batch[OF a(2)] obtain source where
      "getMeshSource env (handler a) = Inr source" "rs_name r = name a"
      "rs_handler r = handler a"
      "rs_batch r = (case ms_batch source of None \<Rightarrow> Some True | Some b \<Rightarrow> b)"
      by blast
    with a(1) show "\<exists>a \<in> set sources. \<exists>source.
              getMeshSource env (handler a) = Inr source \<and> rs_name r = name a \<and>
              rs_handler r = handler a \<and>
              (ms_batch source = None \<longrightarrow> rs_batch r = Some True) \<and>
              (\<forall>b. ms_batch source = Some b \<longrightarrow> rs_batch r = b)"
      by (intro bexI[of _ a] exI[of _ source]) auto
  qed
qed

lemma demo_outcomes:
  "sourceOutcome demoEnv booksSource =
     Inr \<lparr> rs_name = ''Books'', rs_schema = ''books'', rs_executor = Some 7, rs_transforms = [],
           rs_contextVariables = [], rs_handler = 0, rs_batch = Some True, rs_merge = None \<rparr>"
  "sourceOutcome demoEnv authorsSource =
     Inr \<lparr> rs_name = ''Authors'', rs_schema = ''authorsbare'', rs_executor = None, rs_transforms = [],
           rs_contextVariables = [''token''], rs_handler = 1, rs_batch = Some False, rs_merge = None \<rparr>"
  "sourceOutcome demoEnv reviewsSource = Inl (ErrorObject (Error ''connection refused''))"
  "sourceOutcome demoEnv silentSource = Inl Nullish"
  by (simp_all add: sourceOutcome_def demoEnv_def booksSource_def authorsSource_def
        reviewsSource_def silentSource_def mkRawSource_def)

text \<open>
  Two sources settling in the reverse order: the one without a \<^verbatim>\<open>batch\<close> key is
  registered with \<^verbatim>\<open>true\<close>, the one with \<^verbatim>\<open>batch: false\<close> keeps it.
\<close>

theorem batch_default_witness:
  "mset [authorsSource, booksSource] = mset [booksSource, authorsSource]
   \<and> map rs_batch (rawSources (buildSources demoEnv [booksSource, authorsSource]
                                   [authorsSource, booksSource])) = [Some False, Some True]
   \<and> (\<exists>r \<in> set (rawSources (buildSources demoEnv [booksSource, authorsSource]
                                   [authorsSource, booksSource])).
         \<exists>source. getMeshSource demoEnv (handler booksSource) = Inr source \<and>
            ms_batch source = None \<and> rs_batch r = Some True)"
  using batch_default [of "[authorsSource, booksSource]" "[booksSource, authorsSource]" demoEnv]
  by (simp add: buildSources_eq registered_def demo_outcomes)
     (simp add: demoEnv_def booksSource_def)


lemma getMesh_unnoticed:
  "\<forall>a \<in> set settled. \<forall>e. sourceOutcome env a = Inl e \<longrightarrow> e = Nullish \<Longrightarrow>
     getMesh env merger hooks sources settled =
       meshFromSources merger hooks (rawSources (buildSources env sources settled))"
  by (auto simp: getMesh_def buildSources_eq)

lemma getMesh_proceeds:
  "\<forall>a \<in> set settled. \<not> isl (sourceOutcome env a) \<Longrightarrow>
     getMesh env merger hooks sources settled =
       meshFromSources merger hooks (rawSources (buildSources env sources settled))"
  by (rule getMesh_unnoticed) auto





text \<open>
  A handler that rejects with \<^verbatim>\<open>undefined\<close>. The \<^verbatim>\<open>catch\<close> block throws while it builds
  the log line, so the source is neither registered nor logged nor flagged, and
  \<^verbatim>\<open>getMesh\<close> succeeds with the other source alone.
\<close>

lemma undefined_rejection_goes_unnoticed:
  "sourceOutcome demoEnv silentSource = Inl Nullish
   \<and> errorLog (buildSources demoEnv [booksSource, silentSource] [silentSource, booksSource]) = []
   \<and> \<not> failed (buildSources demoEnv [booksSource, silentSource] [silentSource, booksSource])
   \<and> (\<exists>mesh. getMesh demoEnv demoMerger demoHooks [booksSource, silentSource]
                 [silentSource, booksSource] = Inr mesh
          \<and> map rs_name (mi_rawSources mesh) = [''Books''])"
proof -
  have st: "buildSources demoEnv [booksSource, silentSource] [silentSource, booksSource]
              = \<lparr> rawSources = registered demoEnv [silentSource, booksSource],
                  failed = False, invoked = map handler [booksSource, silentSource],
                  errorLog = [] \<rparr>"
    by (simp add: buildSources_eq failureLines_def demo_outcomes)
  have reg: "registered demoEnv [silentSource, booksSource]
               = [\<lparr> rs_name = ''Books'', rs_schema = ''books'', rs_executor = Some 7,
                     rs_transforms = [], rs_contextVariables = [], rs_handler = 0,
                     rs_batch = Some True, rs_merge = None \<rparr>]"
    by (simp add: registered_def demo_outcomes)
  have "\<exists>mesh. getMesh demoEnv demoMerger demoHooks [booksSource, silentSource]
                 [silentSource, booksSource] = Inr mesh
          \<and> map rs_name (mi_rawSources mesh) = [''Books'']"
    by (simp add: getMesh_def st reg meshFromSources_def demoMerger_def)
  with st show ?thesis by (simp add: demo_outcomes)
qed

lemma attachInContextSdk_ok:
  "\<forall>(i, r) \<in> set xs. sm i \<noteq> None \<Longrightarrow>
     \<exists>ctx'. attachInContextSdk sm xs ctx = Inr ctx' \<and>
        (\<forall>(i, r) \<in> set xs. ctx' (rs_name r) \<noteq> None) \<and>
        (\<forall>n. ctx n \<noteq> None \<longrightarrow> ctx' n \<noteq> None)"
proof (induction xs arbitrary: ctx)
  case Nil
  show ?case by simp
next
  case (Cons p xs)
  obtain i r where p: "p = (i, r)" by (cases p)
  from Cons.prems p obtain ts where ts: "sm i = Some ts" by auto
  from Cons.prems have "\<forall>(i, r) \<in> set xs. sm i \<noteq> None" by simp
  from Cons.IH[OF this, of "ctx(rs_name r \<mapsto> rawSourceContext r ts)"]
  obtain ctx' where c: "attachInContextSdk sm xs (ctx(rs_name r \<mapsto> rawSourceContext r ts)) = Inr ctx'"
    "\<forall>(i, r) \<in> set xs. ctx' (rs_name r) \<noteq> None"
    "\<forall>n. (ctx(rs_name r \<mapsto> rawSourceContext r ts)) n \<noteq> None \<longrightarrow> ctx' n \<noteq> None"
    by blast
  from c(3) have "ctx' (rs_name r) \<noteq> None" by simp
  moreover from c(3) have "\<forall>n. ctx n \<noteq> None \<longrightarrow> ctx' n \<noteq> None" by simp
  ultimately show ?case using c(1,2) p ts by simp
qed

lemma attachInContextSdk_Inr:
  "attachInContextSdk sm xs ctx = Inr ctx' \<Longrightarrow> \<forall>(i, r) \<in> set xs. sm i \<noteq> None"
  by (induction sm xs ctx rule: attachInContextSdk.induct) (auto split: option.splits)

lemma healthy_outcome:
  assumes "getMeshSource env (handler a) = Inr source"
    and "\<forall>e. applySchemaTransforms env (ms_schema source) source
                (snd (groupTransforms env (transforms a))) \<noteq> Inl e"
  shows "\<not> isl (sourceOutcome env a)"
  using assms
  by (cases "applySchemaTransforms env (ms_schema source) source (snd (groupTransforms env (transforms a)))")
     (auto simp: sourceOutcome_def split: prod.splits)

text \<open>
  Claim C7, as the code has it. The sources are healthy (each handler resolves, and
  its bare transforms apply without an error), and the merger keeps its side of the
  boundary: it returns a unified schema whose source map has an entry for each raw
  source it was given. Then \<^verbatim>\<open>getMesh\<close> succeeds, \<^verbatim>\<open>rawSources\<close> has as many entries as there are configured
  sources, with the same names, and each of them has its entry in the source map and
  its SDK in the mesh context. This holds for every order in which the handlers settle,
  and for an empty configuration too.
\<close>

theorem healthy_sources_registered:
  assumes "mset settled = mset sources"
    and "\<forall>a \<in> set sources. \<exists>source. getMeshSource env (handler a) = Inr source \<and>
           (\<forall>e. applySchemaTransforms env (ms_schema source) source
                   (snd (groupTransforms env (transforms a))) \<noteq> Inl e)"
    and "merger (rawSources (buildSources env sources settled)) = Inr unified"
    and "\<forall>i < length sources. sourceMap unified i \<noteq> None"
  shows "\<exists>mesh. getMesh env merger hooks sources settled = Inr mesh
           \<and> length (mi_rawSources mesh) = length sources
           \<and> mset (map rs_name (mi_rawSources mesh)) = mset (map name sources)
           \<and> (\<forall>i < length (mi_rawSources mesh).
                 sourceMap unified i \<noteq> None \<and>
                 mi_meshContext mesh (rs_name (mi_rawSources mesh ! i)) \<noteq> None)"
proof -
  let ?raw = "rawSources (buildSources env sources settled)"
  have s: "set settled = set sources" using assms(1) by (metis set_mset_mset)
  have ok: "\<forall>a \<in> set settled. \<not> isl (sourceOutcome env a)"
    using assms(2) healthy_outcome unfolding s by blast
  have raw: "?raw = registered env settled" by (simp add: buildSources_eq)
  from registered_all_ok[OF ok]
  have names: "map rs_name ?raw = map name settled" and len: "length ?raw = length settled"
    by (simp_all add: raw)
  have len': "length ?raw = length sources"
    using len assms(1) by (metis size_mset)
  have names': "mset (map rs_name ?raw) = mset (map name sources)"
    using names assms(1) by (metis mset_map)
  have "\<forall>(i, r) \<in> set (enumerate 0 ?raw). sourceMap unified i \<noteq> None"
    using assms(4) len' by (auto simp: in_set_enumerate_eq)
  from attachInContextSdk_ok[OF this, of Map.empty]
  obtain ctx' where c: "attachInContextSdk (sourceMap unified) (enumerate 0 ?raw) Map.empty = Inr ctx'"
    "\<forall>(i, r) \<in> set (enumerate 0 ?raw). ctx' (rs_name r) \<noteq> None"
    by blast
  have ctx: "\<forall>i < length ?raw. ctx' (rs_name (?raw ! i)) \<noteq> None"
  proof (intro allI impI)
    fix i assume "i < length ?raw"
    then have "(i, ?raw ! i) \<in> set (enumerate 0 ?raw)" by (simp add: in_set_enumerate_eq)
    with c(2) show "ctx' (rs_name (?raw ! i)) \<noteq> None" by blast
  qed
  have "getMesh env merger hooks sources settled =
          Inr \<lparr> mi_schema = hooks (us_schema unified) ctx', mi_rawSources = ?raw,
                mi_meshContext = ctx' \<rparr>"
    using getMesh_proceeds[OF ok, where merger=merger and hooks=hooks and sources=sources]
      assms(3) c(1)
    by (simp add: meshFromSources_def)
  then show ?thesis using len' names' ctx assms(4) by simp
qed

text \<open>
  Claim C7 as stated does not hold: the handler of the source \<open>Broken\<close> succeeds, but
  applying its bare transform throws inside the \<^verbatim>\<open>try\<close> block, and \<^verbatim>\<open>getMesh\<close> fails.
\<close>

theorem healthy_handler_broken_transform:
  "\<not> isl (getMeshSource demoEnv (handler brokenSource))
   \<and> getMesh demoEnv demoMerger demoHooks [brokenSource] [brokenSource]
       = Inl (Error schemasFailedMessage)"
proof -
  have "sourceOutcome demoEnv brokenSource = Inl (ErrorObject (Error ''transform failed''))"
    by (simp add: sourceOutcome_def demoEnv_def brokenSource_def)
  then have "getMesh demoEnv demoMerger demoHooks [brokenSource] [brokenSource]
               = Inl (Error schemasFailedMessage)"
    by (simp add: getMesh_def buildSources_eq)
  moreover have "\<not> isl (getMeshSource demoEnv (handler brokenSource))"
    by (simp add: demoEnv_def brokenSource_def)
  ultimately show ?thesis by simp
qed

text \<open>Two healthy sources settling in the reverse order.\<close>

theorem healthy_sources_registered_witness:
  "mset [authorsSource, booksSource] = mset [booksSource, authorsSource]
   \<and> (\<exists>mesh. getMesh demoEnv demoMerger demoHooks [booksSource, authorsSource]
                 [authorsSource, booksSource] = Inr mesh
         \<and> length (mi_rawSources mesh) = 2
         \<and> mset (map rs_name (mi_rawSources mesh)) = mset [''Books'', ''Authors'']
         \<and> mi_meshContext mesh (rs_name (mi_rawSources mesh ! 0)) \<noteq> None
         \<and> mi_meshContext mesh (rs_name (mi_rawSources mesh ! 1)) \<noteq> None)"
proof -
  let ?sources = "[booksSource, authorsSource]"
  let ?settled = "[authorsSource, booksSource]"
  let ?raw = "rawSources (buildSources demoEnv ?sources ?settled)"
  have perm: "mset ?settled = mset ?sources" by simp
  have healthy: "\<forall>a \<in> set ?sources. \<exists>source. getMeshSource demoEnv (handler a) = Inr source \<and>
           (\<forall>e. applySchemaTransforms demoEnv (ms_schema source) source
                   (snd (groupTransforms demoEnv (transforms a))) \<noteq> Inl e)"
    by (simp add: demoEnv_def booksSource_def authorsSource_def)
  obtain unified where u: "demoMerger ?raw = Inr unified"
    and sm: "\<forall>i < length ?sources. sourceMap unified i \<noteq> None"
    by (simp add: demoMerger_def buildSources_eq registered_def demo_outcomes)
  from healthy_sources_registered [where settled="?settled" and sources="?sources"
         and env=demoEnv and merger=demoMerger and unified=unified and hooks=demoHooks,
         OF perm healthy u sm]
  obtain mesh where m: "getMesh demoEnv demoMerger demoHooks ?sources ?settled = Inr mesh"
    "length (mi_rawSources mesh) = length ?sources"
    "mset (map rs_name (mi_rawSources mesh)) = mset (map name ?sources)"
    "\<forall>i < length (mi_rawSources mesh). sourceMap unified i \<noteq> None \<and>
        mi_meshContext mesh (rs_name (mi_rawSources mesh ! i)) \<noteq> None"
    by blast
  from m(2,4) have "mi_meshContext mesh (rs_name (mi_rawSources mesh ! 0)) \<noteq> None"
    "mi_meshContext mesh (rs_name (mi_rawSources mesh ! 1)) \<noteq> None" by simp_all
  moreover have "map name ?sources = [''Books'', ''Authors'']"
    by (simp add: booksSource_def authorsSource_def)
  ultimately show ?thesis using perm m(1,2,3) by auto
qed

section \<open>Properties of the in-context SDK callables\<close>

lemma singleDelegation_fields:
  "\<exists>opts. singleDelegation ps pr sf a = DelegateToSchema opts \<and> dl_args opts = arg_args a
      \<and> dl_transforms opts = selectionSetTransforms ps pr (sf_fieldName sf) (arg_selectionSet a)
      \<and> CommonDelegateOptions.truncate opts = commonDelegateOptions sf a"
  by (simp add: singleDelegation_def CommonDelegateOptions.extend_def
        DelegateToSchemaOptions.fields_def CommonDelegateOptions.truncate_def commonDelegateOptions_def)

lemma falsy_key_single:
  "arg_key a = None \<or> arg_key a = Some [] \<or> arg_argsFromKeys a = None \<Longrightarrow>
     inContextSdkDelegation ps pr sf a = singleDelegation ps pr sf a"
  by (auto simp: inContextSdkDelegation_def split: option.splits)

lemma single_result:
  "inContextSdkDelegation ps pr sf a = singleDelegation ps pr sf a \<Longrightarrow>
     inContextSdkField ps pr delegate sf a =
       (case delegate (inContextSdkDelegation ps pr sf a) of
          Inl e \<Rightarrow> Inl e
        | Inr result \<Rightarrow>
            Inr (case arg_valuesFromResults a of
                   None \<Rightarrow> result
                 | Some valuesFromResults \<Rightarrow> valuesFromResults result None))"
  by (simp add: inContextSdkField_def singleDelegation_def split: sum.splits option.splits)

text \<open>
  Claim C1, as the code has it. When \<^verbatim>\<open>key\<close> is a non-empty string and \<^verbatim>\<open>argsFromKeys\<close>
  is given, the callable makes the one call \<^verbatim>\<open>batchDelegateToSchema\<close>, whose options
  carry the key, \<^verbatim>\<open>argsFromKeys\<close> (which computes the downstream arguments from the
  collected keys) and \<^verbatim>\<open>valuesFromResults\<close> (which hands the results back to the
  callers) beside the common options, and returns what that call returns. In every
  other case (\<^verbatim>\<open>key\<close> missing or the empty string, or \<^verbatim>\<open>argsFromKeys\<close> missing) it makes
  the one call \<^verbatim>\<open>delegateToSchema\<close> with \<^verbatim>\<open>args\<close> as they are, and passes the result
  through \<^verbatim>\<open>valuesFromResults\<close> when one is given.
\<close>

theorem batched_iff_truthy_key_and_argsFromKeys:
  "(\<forall>k f. arg_key a = Some k \<and> k \<noteq> [] \<and> arg_argsFromKeys a = Some f \<longrightarrow>
      (\<exists>opts. inContextSdkDelegation ps pr sf a = BatchDelegateToSchema opts
         \<and> bd_key opts = k \<and> bd_argsFromKeys opts = f
         \<and> bd_valuesFromResults opts = arg_valuesFromResults a
         \<and> bd_transforms opts = selectionSetTransforms ps pr (sf_fieldName sf) (arg_selectionSet a)
         \<and> CommonDelegateOptions.truncate opts = commonDelegateOptions sf a)
      \<and> inContextSdkField ps pr delegate sf a =
            delegate (inContextSdkDelegation ps pr sf a))
   \<and> (arg_key a = None \<or> arg_key a = Some [] \<or> arg_argsFromKeys a = None \<longrightarrow>
      (\<exists>opts. inContextSdkDelegation ps pr sf a = DelegateToSchema opts
         \<and> dl_args opts = arg_args a
         \<and> dl_transforms opts = selectionSetTransforms ps pr (sf_fieldName sf) (arg_selectionSet a)
         \<and> CommonDelegateOptions.truncate opts = commonDelegateOptions sf a)
      \<and> inContextSdkField ps pr delegate sf a =
            (case delegate (inContextSdkDelegation ps pr sf a) of
               Inl e \<Rightarrow> Inl e
             | Inr result \<Rightarrow>
                 Inr (case arg_valuesFromResults a of
                        None \<Rightarrow> result
                      | Some valuesFromResults \<Rightarrow> valuesFromResults result None)))"
proof (intro conjI allI impI)
  fix k f assume h: "arg_key a = Some k \<and> k \<noteq> [] \<and> arg_argsFromKeys a = Some f"
  then show "\<exists>opts. inContextSdkDelegation ps pr sf a = BatchDelegateToSchema opts
         \<and> bd_key opts = k \<and> bd_argsFromKeys opts = f
         \<and> bd_valuesFromResults opts = arg_valuesFromResults a
         \<and> bd_transforms opts = selectionSetTransforms ps pr (sf_fieldName sf) (arg_selectionSet a)
         \<and> CommonDelegateOptions.truncate opts = commonDelegateOptions sf a"
    by (simp add: inContextSdkDelegation_def CommonDelegateOptions.extend_def
        BatchDelegateOptions.fields_def CommonDelegateOptions.truncate_def commonDelegateOptions_def)
  from h show "inContextSdkField ps pr delegate sf a =
            delegate (inContextSdkDelegation ps pr sf a)"
    by (simp add: inContextSdkField_def inContextSdkDelegation_def)
next
  assume h: "arg_key a = None \<or> arg_key a = Some [] \<or> arg_argsFromKeys a = None"
  from falsy_key_single[OF h, of ps pr sf]
  show "\<exists>opts. inContextSdkDelegation ps pr sf a = DelegateToSchema opts
         \<and> dl_args opts = arg_args a
         \<and> dl_transforms opts = selectionSetTransforms ps pr (sf_fieldName sf) (arg_selectionSet a)
         \<and> CommonDelegateOptions.truncate opts = commonDelegateOptions sf a"
    using singleDelegation_fields[of ps pr sf a] by simp
  from falsy_key_single[OF h, of ps pr sf]
  show "inContextSdkField ps pr delegate sf a =
            (case delegate (inContextSdkDelegation ps pr sf a) of
               Inl e \<Rightarrow> Inl e
             | Inr result \<Rightarrow>
                 Inr (case arg_valuesFromResults a of
                        None \<Rightarrow> result
                      | Some valuesFromResults \<Rightarrow> valuesFromResults result None))"
    by (rule single_result)
qed

text \<open>
  Claim C1 as stated does not hold: a call that supplies the key \<^verbatim>\<open>''\<close> together with
  \<^verbatim>\<open>argsFromKeys\<close> is not batched; it is delegated as a single call with \<^verbatim>\<open>args\<close>.
\<close>

theorem empty_key_not_batched:
  "arg_key (demoCall \<lparr> arg_key := Some [] \<rparr>) = Some []
   \<and> arg_argsFromKeys (demoCall \<lparr> arg_key := Some [] \<rparr>) \<noteq> None
   \<and> (\<forall>opts. inContextSdkDelegation demoParse demoPrint demoSdkField
                (demoCall \<lparr> arg_key := Some [] \<rparr>) \<noteq> BatchDelegateToSchema opts)
   \<and> (\<exists>opts. inContextSdkDelegation demoParse demoPrint demoSdkField
                (demoCall \<lparr> arg_key := Some [] \<rparr>) = DelegateToSchema opts
           \<and> dl_args opts = ''id: 1'')"
  by (simp add: demoCall_def inContextSdkDelegation_def singleDelegation_def
        CommonDelegateOptions.extend_def DelegateToSchemaOptions.fields_def)

text \<open>
  A call with the key \<open>1\<close> is batched and answered by the batch; the same call without
  a key is a single delegation.
\<close>

theorem batched_iff_truthy_key_and_argsFromKeys_witness:
  "arg_key demoCall = Some ''1'' \<and> arg_argsFromKeys demoCall \<noteq> None
   \<and> (\<exists>opts. inContextSdkDelegation demoParse demoPrint demoSdkField demoCall
                 = BatchDelegateToSchema opts
          \<and> bd_key opts = ''1'' \<and> bd_argsFromKeys opts [''1'', ''2''] = ''ids: 12'')
   \<and> inContextSdkField demoParse demoPrint demoDelegate demoSdkField demoCall
        = demoDelegate (inContextSdkDelegation demoParse demoPrint demoSdkField demoCall)
   \<and> arg_key (demoCall \<lparr> arg_key := None \<rparr>) = None
   \<and> (\<exists>opts. inContextSdkDelegation demoParse demoPrint demoSdkField
                 (demoCall \<lparr> arg_key := None \<rparr>) = DelegateToSchema opts
          \<and> dl_args opts = ''id: 1'')"
proof -
  have k: "arg_key demoCall = Some ''1'' \<and> ''1'' \<noteq> [] \<and>
           arg_argsFromKeys demoCall = Some (\<lambda>keys. ''ids: '' @ concat keys)"
    by (simp add: demoCall_def)
  note t = batched_iff_truthy_key_and_argsFromKeys
             [of demoCall demoParse demoPrint demoSdkField demoDelegate,
              THEN conjunct1, rule_format, OF k]
  from t obtain opts where o: "inContextSdkDelegation demoParse demoPrint demoSdkField demoCall
                 = BatchDelegateToSchema opts" "bd_key opts = ''1''"
       "bd_argsFromKeys opts = (\<lambda>keys. ''ids: '' @ concat keys)"
    by blast
  have n: "arg_key (demoCall \<lparr> arg_key := None \<rparr>) = None" by simp
  from batched_iff_truthy_key_and_argsFromKeys
         [of "demoCall \<lparr> arg_key := None \<rparr>" demoParse demoPrint demoSdkField demoDelegate] n
  obtain opts' where o': "inContextSdkDelegation demoParse demoPrint demoSdkField
                 (demoCall \<lparr> arg_key := None \<rparr>) = DelegateToSchema opts'"
       "dl_args opts' = arg_args (demoCall \<lparr> arg_key := None \<rparr>)"
    by blast
  have "arg_args (demoCall \<lparr> arg_key := None \<rparr>) = ''id: 1''" by (simp add: demoCall_def)
  with o o' k n t [THEN conjunct2] show ?thesis by auto
qed

text \<open>
  Claim C5. Let the document \<open>d\<close> denote the selection the string \<open>s\<close> denotes: what
  \<^verbatim>\<open>print\<close> makes of \<open>d\<close> parses to the selection set \<open>s\<close> parses to (both are library
  functions). Then the string, the document and a factory that returns either of them
  are normalized to the same value, which is the parsed selection set; a value that is
  already normalized is left as it is, so normalizing twice gives what normalizing once
  gives; and the wrapper of the \<^verbatim>\<open>WrapQuery\<close> transform put on the outgoing request is
  this normalization.
\<close>

theorem selection_set_shapes_agree:
  assumes "parseSelectionSet (print d) = parseSelectionSet s"
  shows "normalizeSelectionSetParamOrFactory parseSelectionSet print (Param (SelString s)) subtree
           = parseSelectionSet s
       \<and> normalizeSelectionSetParamOrFactory parseSelectionSet print (Param (SelDocument d)) subtree
           = normalizeSelectionSetParamOrFactory parseSelectionSet print (Param (SelString s)) subtree
       \<and> (f subtree = SelString s \<or> f subtree = SelDocument d \<longrightarrow>
            normalizeSelectionSetParamOrFactory parseSelectionSet print (Factory f) subtree
              = normalizeSelectionSetParamOrFactory parseSelectionSet print (Param (SelString s)) subtree)
       \<and> (\<forall>p n. normalizeSelectionSetParam parseSelectionSet print p = Inr n \<longrightarrow>
            normalizeSelectionSetParam parseSelectionSet print (SelNode n)
              = normalizeSelectionSetParam parseSelectionSet print p)
       \<and> (\<forall>x. x \<noteq> Param (SelString []) \<longrightarrow>
            selectionSetTransforms parseSelectionSet print fieldName (Some x)
              = Some [WrapQuery [fieldName]
                        (normalizeSelectionSetParamOrFactory parseSelectionSet print x)
                        (identical :: 'v \<Rightarrow> 'v)])"
  using assms
  by (auto simp: normalizeSelectionSetParamOrFactory_def normalizeSelectionSetParam_def
        selectionSetTransforms_def)

text \<open>
  The string \<open>{id}\<close>, the document printed as \<open>{ id }\<close> and a factory returning that
  document all give the selection set \<open>{id}\<close>.
\<close>

theorem selection_set_shapes_agree_witness:
  "demoParse (demoPrint ''id'') = demoParse ''{id}''
   \<and> normalizeSelectionSetParamOrFactory demoParse demoPrint (Param (SelString ''{id}'')) ''{x}''
        = Inr ''{id}''
   \<and> normalizeSelectionSetParamOrFactory demoParse demoPrint (Param (SelDocument ''id'')) ''{x}''
        = Inr ''{id}''
   \<and> normalizeSelectionSetParamOrFactory demoParse demoPrint
        (Factory (\<lambda>subtree. SelDocument ''id'')) ''{x}'' = Inr ''{id}''
   \<and> normalizeSelectionSetParam demoParse demoPrint (SelNode ''{id}'') = Inr ''{id}''"
proof -
  have h: "demoParse (demoPrint ''id'') = demoParse ''{id}''"
    by (simp add: demoParse_def demoPrint_def)
  have v: "demoParse ''{id}'' = Inr ''{id}''" by (simp add: demoParse_def)
  have f: "(\<lambda>subtree::string. (SelDocument ''id'' :: (string, string) SelectionSetParam)) ''{x}''
             = SelString ''{id}'' \<or>
           (\<lambda>subtree::string. (SelDocument ''id'' :: (string, string) SelectionSetParam)) ''{x}''
             = SelDocument ''id''" by simp
  note t = selection_set_shapes_agree [where parseSelectionSet=demoParse and print=demoPrint
         and d="''id''" and s="''{id}''" and subtree="''{x}''"
         and f="\<lambda>subtree. SelDocument ''id''" and fieldName="''book''", OF h]
  from t [THEN conjunct1] t [THEN conjunct2, THEN conjunct1]
    t [THEN conjunct2, THEN conjunct2, THEN conjunct1] f v h
  show ?thesis by (simp add: normalizeSelectionSetParam_def)
qed

section \<open>Properties of the live query invalidation\<close>

text \<open>
The fields of the configuration are the keys of the factory map.
\<close>

lemma factoryMap_dom_aux:
  "dom (fold (\<lambda>i m. m(lq_field i \<mapsto> map g (lq_invalidate i))) l m0) = dom m0 \<union> lq_field ` set l"
  by (induction l arbitrary: m0) auto

lemma factoryMap_dom:
  "dom (liveQueryInvalidationFactoryMap g (Some l)) = lq_field ` set l"
  by (simp add: liveQueryInvalidationFactoryMap_def factoryMap_dom_aux)

text \<open>
  Claim C4. An event carries a parent type and a field name when the resolver data,
  its \<^verbatim>\<open>info\<close>, the parent type and the field name are all there; a field name is a
  GraphQL name and so not empty (the guard of the subscriber takes an empty one for a
  missing one). For such an event the path is the parent type's name, a dot and the
  field name. If the path is a key of the factory map, every factory under it is
  applied to the resolver data with the result, and the list of the paths they give is
  invalidated as one batch; if it is not a key, nothing is invalidated. An event that
  lacks the resolver data, the \<^verbatim>\<open>info\<close>, the parent type or the field name invalidates
  nothing.
\<close>

theorem resolverDone_invalidates_registered_paths:
  "(\<forall>rd info pt f.
      ev_resolverData ev = Some rd \<and> rd_info rd = Some info \<and>
      ri_parentType info = Some pt \<and> ri_fieldName info = Some f \<and> f \<noteq> [] \<longrightarrow>
        (\<forall>fs. factoryMap (pt_name pt @ ''.'' @ f) = Some fs \<longrightarrow>
           resolverDoneSubscriber factoryMap ev invalidated =
             invalidated @ [map (\<lambda>factory. factory (rd, ev_result ev)) fs])
        \<and> (factoryMap (pt_name pt @ ''.'' @ f) = None \<longrightarrow>
           resolverDoneSubscriber factoryMap ev invalidated = invalidated))
   \<and> (ev_resolverData ev = None
        \<or> (\<exists>rd. ev_resolverData ev = Some rd \<and>
              (rd_info rd = None
               \<or> (\<exists>info. rd_info rd = Some info \<and>
                     (ri_parentType info = None \<or> ri_fieldName info = None)))) \<longrightarrow>
        resolverDoneSubscriber factoryMap ev invalidated = invalidated)"
  by (auto simp: resolverDoneSubscriber_def split: option.splits)

text \<open>
  A resolution of \<open>Query.book\<close> under a rule with two templates invalidates the two
  paths as one batch; without rules, or without resolver data, nothing is invalidated.
\<close>

theorem resolverDone_invalidates_registered_paths_witness:
  "resolverDoneSubscriber (liveQueryInvalidationFactoryMap demoFactory (Some demoInvalidations))
     demoEvent [] = [[''Query.books42'', ''Book:42'']]
   \<and> resolverDoneSubscriber (liveQueryInvalidationFactoryMap demoFactory None) demoEvent [] = []
   \<and> resolverDoneSubscriber (liveQueryInvalidationFactoryMap demoFactory (Some demoInvalidations))
        (demoEvent \<lparr> ev_resolverData := None \<rparr>) [] = []"
proof -
  let ?m = "liveQueryInvalidationFactoryMap demoFactory (Some demoInvalidations)"
  let ?rd = "\<lparr> rd_info = Some \<lparr> ri_parentType = Some \<lparr> pt_name = ''Query'' \<rparr>,
                                 ri_fieldName = Some ''book'' \<rparr>, rd_rest = ''42'' \<rparr>"
  have ev: "ev_resolverData demoEvent = Some ?rd \<and>
            rd_info ?rd = Some \<lparr> ri_parentType = Some \<lparr> pt_name = ''Query'' \<rparr>,
                                 ri_fieldName = Some ''book'' \<rparr> \<and>
            ri_parentType \<lparr> ri_parentType = Some \<lparr> pt_name = ''Query'' \<rparr>,
                            ri_fieldName = Some ''book'' \<rparr> = Some \<lparr> pt_name = ''Query'' \<rparr> \<and>
            ri_fieldName \<lparr> ri_parentType = Some \<lparr> pt_name = ''Query'' \<rparr>,
                           ri_fieldName = Some ''book'' \<rparr> = Some ''book'' \<and> ''book'' \<noteq> []"
    by (simp add: demoEvent_def)
  have key: "?m (pt_name \<lparr> pt_name = ''Query'' \<rparr> @ ''.'' @ ''book'')
               = Some [demoFactory ''Query.books'', demoFactory ''Book:'']"
    by (simp add: liveQueryInvalidationFactoryMap_def demoInvalidations_def)
  have nokey: "liveQueryInvalidationFactoryMap demoFactory None
                 (pt_name \<lparr> pt_name = ''Query'' \<rparr> @ ''.'' @ ''book'') = None"
    by (simp add: liveQueryInvalidationFactoryMap_def)
  have gone: "ev_resolverData (demoEvent \<lparr> ev_resolverData := None \<rparr>) = None" by simp
  have 1: "resolverDoneSubscriber ?m demoEvent [] =
             [] @ [map (\<lambda>factory. factory (?rd, ev_result demoEvent))
                     [demoFactory ''Query.books'', demoFactory ''Book:'']]"
    using resolverDone_invalidates_registered_paths [of demoEvent ?m "[]"] ev key by blast
  have 2: "resolverDoneSubscriber (liveQueryInvalidationFactoryMap demoFactory None) demoEvent []
             = []"
    using resolverDone_invalidates_registered_paths
            [of demoEvent "liveQueryInvalidationFactoryMap demoFactory None" "[]"] ev nokey
    by blast
  have 3: "resolverDoneSubscriber ?m (demoEvent \<lparr> ev_resolverData := None \<rparr>) [] = []"
    using resolverDone_invalidates_registered_paths
            [of "demoEvent \<lparr> ev_resolverData := None \<rparr>" ?m "[]"] gone by blast
  from 1 2 3 show ?thesis by (simp add: demoFactory_def)
qed

section \<open>Properties of the execution facade and the SDK requester\<close>

lemma oneOperation_sole:
  "graphqlGetOperationAST oneOperation = Some \<lparr> od_operation = Query, od_name = Some ''A'' \<rparr>"
  by (simp add: graphqlGetOperationAST_def oneOperation_def)

lemma twoOperations_none: "graphqlGetOperationAST twoOperations = None"
  by (simp add: graphqlGetOperationAST_def twoOperations_def)

text \<open>
  Claim C6, as the code has it. The document handed to the executor is the one
  \<^verbatim>\<open>getDocumentNodeAndSDL\<close> returns for the input (a parsed string, or the document
  itself). An operation name that is given and not empty is passed on unchanged. When
  the operation name is missing or the empty string and the library finds the
  document's one operation, the name passed on is that operation's name (none when the
  operation has no name).
\<close>

theorem operationName_given_or_derived:
  "(\<forall>document sdl. getDocumentNodeAndSDL env documentOrSDL = Inr (document, sdl) \<longrightarrow>
      (\<forall>n. operationName = Some n \<and> n \<noteq> [] \<longrightarrow>
         executionParams env documentOrSDL vars ctx root operationName =
           Inr (executionArgs env document vars ctx root (Some n))
         \<and> meshExecute env documentOrSDL vars ctx root operationName =
           liveQueryExecute env (executionArgs env document vars ctx root (Some n)))
      \<and> (\<forall>operationAst. (operationName = None \<or> operationName = Some []) \<and>
            getOperationAST env document = Some operationAst \<longrightarrow>
         executionParams env documentOrSDL vars ctx root operationName =
           Inr (executionArgs env document vars ctx root (od_name operationAst))
         \<and> meshExecute env documentOrSDL vars ctx root operationName =
           liveQueryExecute env (executionArgs env document vars ctx root (od_name operationAst))))
   \<and> getDocumentNodeAndSDL_spec parse printDocument (Document d) = Inr (d, printDocument d)
   \<and> (\<forall>s d'. parse s = Inr d' \<longrightarrow>
         getDocumentNodeAndSDL_spec parse printDocument (SDL s) = Inr (d', s))"
  by (auto simp: meshExecute_def executionParams_def resolveOperationName_def
        getDocumentNodeAndSDL_spec_def)

text \<open>
  Claim C6 as stated does not hold: the operation name \<^verbatim>\<open>''\<close>, given explicitly with a
  document whose one operation is \<open>A\<close>, is not passed on unchanged; the executor is
  given the name \<open>A\<close>.
\<close>

theorem empty_operationName_replaced:
  "executionParams demoExecuteEnv (Document oneOperation) None None None (Some [])
     = Inr (executionArgs demoExecuteEnv oneOperation None None None (Some ''A''))
   \<and> ea_operationName (executionArgs demoExecuteEnv oneOperation None None None (Some ''A''))
       \<noteq> Some []"
  by (simp add: executionParams_def resolveOperationName_def demoExecuteEnv_def
        getDocumentNodeAndSDL_spec_def oneOperation_sole executionArgs_def)

text \<open>
  With the name \<open>B\<close> given for a document of two operations the executor gets \<open>B\<close>;
  with no name given for a document of one operation \<open>A\<close> it gets \<open>A\<close>.
\<close>

theorem operationName_given_or_derived_witness:
  "getDocumentNodeAndSDL demoExecuteEnv (Document twoOperations) = Inr (twoOperations, ''printed'')
   \<and> meshExecute demoExecuteEnv (Document twoOperations) None None None (Some ''B'')
       = liveQueryExecute demoExecuteEnv
           (executionArgs demoExecuteEnv twoOperations None None None (Some ''B''))
   \<and> getOperationAST demoExecuteEnv oneOperation
       = Some \<lparr> od_operation = Query, od_name = Some ''A'' \<rparr>
   \<and> meshExecute demoExecuteEnv (Document oneOperation) None None None None
       = liveQueryExecute demoExecuteEnv
           (executionArgs demoExecuteEnv oneOperation None None None (Some ''A''))"
proof -
  have d2: "getDocumentNodeAndSDL demoExecuteEnv (Document twoOperations)
              = Inr (twoOperations, ''printed'')"
    and d1: "getDocumentNodeAndSDL demoExecuteEnv (Document oneOperation)
              = Inr (oneOperation, ''printed'')"
    by (simp_all add: demoExecuteEnv_def getDocumentNodeAndSDL_spec_def)
  have a: "getOperationAST demoExecuteEnv oneOperation
             = Some \<lparr> od_operation = Query, od_name = Some ''A'' \<rparr>"
    by (simp add: demoExecuteEnv_def oneOperation_sole)
  have b: "Some ''B'' = Some ''B'' \<and> ''B'' \<noteq> []" by simp
  note t2 = operationName_given_or_derived
              [where env=demoExecuteEnv and documentOrSDL="Document twoOperations"
                 and operationName="Some ''B''" and vars=None and ctx=None and root=None,
               THEN conjunct1, rule_format, OF d2]
  note t1 = operationName_given_or_derived
              [where env=demoExecuteEnv and documentOrSDL="Document oneOperation"
                 and operationName=None and vars=None and ctx=None and root=None,
               THEN conjunct1, rule_format, OF d1]
  from t2 [THEN conjunct1, rule_format, OF b] t1 [THEN conjunct2, rule_format]
    d2 a show ?thesis by simp
qed

text \<open>
  What the requester does with an execution result when the library finds the
  document's one operation: data without errors is returned; errors are thrown as one
  \<^verbatim>\<open>GraphQLMeshSdkError\<close> with the document, the variables and the data; a result with
  a \<^verbatim>\<open>data\<close> key holding nothing and no errors ends in a \<open>TypeError\<close>; a result with
  neither key fails with \<open>Not implemented\<close>.
\<close>

lemma requesterOutcome_cases:
  "(\<forall>d. er_data r = Some (Some d) \<and> readKey (er_errors r) = None \<longrightarrow>
      requesterOutcome getOpAST document variables r = Inr d)
   \<and> (\<forall>errs operationAst. er_errors r = Some (Some errs) \<and> getOpAST document = Some operationAst \<longrightarrow>
      requesterOutcome getOpAST document variables r =
        Inl (GraphQLMeshSdkError errs document variables (readKey (er_data r))
               (''GraphQL Mesh SDK '' @ operationTypeText (od_operation operationAst) @ '' '' @
                  (case od_name operationAst of None \<Rightarrow> [] | Some n \<Rightarrow> n) @ '' failed!'')))
   \<and> (\<forall>operationAst. er_data r = Some None \<and> readKey (er_errors r) = None \<and>
         getOpAST document = Some operationAst \<longrightarrow>
      requesterOutcome getOpAST document variables r =
        Inl (Thrown (TypeError ''undefined is not iterable'')))
   \<and> (er_data r = None \<and> er_errors r = None \<longrightarrow>
      requesterOutcome getOpAST document variables r = Inl (Thrown (Error ''Not implemented'')))"
  by (auto simp: requesterOutcome_def readKey_def newGraphQLMeshSdkError_def
        split: option.splits)

text \<open>
  Claim C3 at a document with two operations. The request names the operation \<open>A\<close>,
  the execution returns \<^verbatim>\<open>{ data: null, errors: ['boom'] }\<close>, and the requester throws
  a \<open>TypeError\<close> instead of the aggregate error: the constructor of
  \<^verbatim>\<open>GraphQLMeshSdkError\<close> reads \<^verbatim>\<open>getOperationAST(document).operation\<close>, and
  \<^verbatim>\<open>getOperationAST\<close> without an operation name returns \<^verbatim>\<open>null\<close> for this document.
\<close>

theorem requester_two_operations_type_error:
  "localRequester demoExecuteEnv twoOperations ''{}'' None None (Some ''A'')
     = Inl (Thrown (TypeError ''Cannot read properties of null''))
   \<and> meshExecute demoExecuteEnv (Document twoOperations) (Some ''{}'') None None (Some ''A'')
     = Inr \<lparr> er_data = Some None, er_errors = Some (Some [''boom'']) \<rparr>"
  by (simp add: localRequester_def meshExecute_def executionParams_def resolveOperationName_def
        demoExecuteEnv_def getDocumentNodeAndSDL_spec_def requesterOutcome_def readKey_def
        newGraphQLMeshSdkError_def twoOperations_none)

section \<open>Properties of the Neo4J handler\<close>

lemma getDriver_set:
  "nh_driver this = Some d \<Longrightarrow> getDriver nd this = (Inr d, this)"
  by (simp add: getDriver_def)

lemma getDriverCalls_set:
  "nh_driver this = Some d \<Longrightarrow> getDriverCalls nd n this = (replicate n (Inr d), this)"
  by (induction n) (simp_all add: getDriver_set)

lemma getDriver_refused:
  "nh_driver this = None \<Longrightarrow>
   nd (cfg_url (nh_config this)) (cfg_username (nh_config this), cfg_password (nh_config this)) = Some e \<Longrightarrow>
     getDriver nd this = (Inl e, this)"
  by (simp add: getDriver_def)

lemma getDriverCalls_refused:
  "nh_driver this = None \<Longrightarrow>
   nd (cfg_url (nh_config this)) (cfg_username (nh_config this), cfg_password (nh_config this)) = Some e \<Longrightarrow>
     getDriverCalls nd n this = (replicate n (Inl e), this)"
  by (induction n) (simp_all add: getDriver_refused)

lemma getDriver_accepted:
  "nh_driver this = None \<Longrightarrow>
   nd (cfg_url (nh_config this)) (cfg_username (nh_config this), cfg_password (nh_config this)) = None \<Longrightarrow>
     getDriver nd this =
       (Inr (newDriver this),
        this \<lparr> nh_driver := Some (newDriver this),
               nh_driversCreated := nh_driversCreated this + 1,
               nh_destroySubscriptions := nh_destroySubscriptions this + 1 \<rparr>)"
  by (simp add: getDriver_def newDriver_def)

lemma getDriverCalls_accepted:
  "nh_driver this = None \<Longrightarrow>
   nd (cfg_url (nh_config this)) (cfg_username (nh_config this), cfg_password (nh_config this)) = None \<Longrightarrow>
     getDriverCalls nd (Suc n) this =
       (replicate (Suc n) (Inr (newDriver this)),
        this \<lparr> nh_driver := Some (newDriver this),
               nh_driversCreated := nh_driversCreated this + 1,
               nh_destroySubscriptions := nh_destroySubscriptions this + 1 \<rparr>)"
  by (simp add: getDriver_accepted getDriverCalls_set)

text \<open>
  Claim C9. A new handler has no driver, has created none and has subscribed nothing.
  After any number of calls of \<^verbatim>\<open>getDriver\<close> it has created at most one driver and
  subscribed to \<^verbatim>\<open>destroy\<close> at most once, and every call has returned what the first
  call returned. When \<^verbatim>\<open>neo4j.driver\<close> accepts the configuration and there is at least
  one call, all calls return the same driver, the state after the first call is the
  state after the last one, and exactly one driver and one subscription were made.
\<close>

theorem driver_created_once_on_demand:
  "nh_driver (newNeo4JHandler nm cache config) = None
   \<and> nh_driversCreated (newNeo4JHandler nm cache config) = 0
   \<and> nh_destroySubscriptions (newNeo4JHandler nm cache config) = 0
   \<and> nh_driversCreated (snd (getDriverCalls nd n (newNeo4JHandler nm cache config))) \<le> 1
   \<and> nh_destroySubscriptions (snd (getDriverCalls nd n (newNeo4JHandler nm cache config))) \<le> 1
   \<and> (\<forall>i < n. fst (getDriverCalls nd n (newNeo4JHandler nm cache config)) ! i
                  = fst (getDriver nd (newNeo4JHandler nm cache config)))
   \<and> (nd (cfg_url config) (cfg_username config, cfg_password config) = None \<and> 0 < n \<longrightarrow>
        (\<exists>d. fst (getDriverCalls nd n (newNeo4JHandler nm cache config)) = replicate n (Inr d)
           \<and> snd (getDriver nd (newNeo4JHandler nm cache config))
               = snd (getDriverCalls nd n (newNeo4JHandler nm cache config))
           \<and> nh_driver (snd (getDriverCalls nd n (newNeo4JHandler nm cache config))) = Some d
           \<and> nh_driversCreated (snd (getDriverCalls nd n (newNeo4JHandler nm cache config))) = 1
           \<and> nh_destroySubscriptions (snd (getDriverCalls nd n (newNeo4JHandler nm cache config))) = 1))"
proof -
  let ?h = "newNeo4JHandler nm cache config"
  have new: "nh_driver ?h = None" "nh_driversCreated ?h = 0" "nh_destroySubscriptions ?h = 0"
    "nh_config ?h = config"
    by (simp_all add: newNeo4JHandler_def)
  show ?thesis
  proof (cases "nd (cfg_url config) (cfg_username config, cfg_password config)")
    case None
    then have acc: "nd (cfg_url (nh_config ?h)) (cfg_username (nh_config ?h), cfg_password (nh_config ?h)) = None"
      by (simp add: new)
    show ?thesis
    proof (cases n)
      case 0
      then show ?thesis by (simp add: new)
    next
      case (Suc m)
      have calls: "getDriverCalls nd (Suc m) ?h =
          (replicate (Suc m) (Inr (newDriver ?h)),
           ?h \<lparr> nh_driver := Some (newDriver ?h),
                 nh_driversCreated := nh_driversCreated ?h + 1,
                 nh_destroySubscriptions := nh_destroySubscriptions ?h + 1 \<rparr>)"
        using new(1) acc by (rule getDriverCalls_accepted)
      have one: "getDriver nd ?h =
          (Inr (newDriver ?h),
           ?h \<lparr> nh_driver := Some (newDriver ?h),
                 nh_driversCreated := nh_driversCreated ?h + 1,
                 nh_destroySubscriptions := nh_destroySubscriptions ?h + 1 \<rparr>)"
        using new(1) acc by (rule getDriver_accepted)
      show ?thesis
        unfolding Suc calls one using None by (simp add: new nth_Cons')
    qed
  next
    case (Some e)
    then have ref: "nd (cfg_url (nh_config ?h)) (cfg_username (nh_config ?h), cfg_password (nh_config ?h)) = Some e"
      by (simp add: new)
    have calls: "getDriverCalls nd n ?h = (replicate n (Inl e), ?h)"
      using new(1) ref by (rule getDriverCalls_refused)
    have one: "getDriver nd ?h = (Inl e, ?h)"
      using new(1) ref by (rule getDriver_refused)
    show ?thesis
      unfolding calls one using Some by (simp add: new)
  qed
qed

text \<open>
Three calls on a new handler: one driver, one subscription, three times the same object.
\<close>

theorem driver_created_once_on_demand_witness:
  "neo4jDriver demoNeo4JEnv (cfg_url demoNeo4JConfig)
      (cfg_username demoNeo4JConfig, cfg_password demoNeo4JConfig) = None
   \<and> (0::nat) < 3
   \<and> (\<exists>d. fst (getDriverCalls (neo4jDriver demoNeo4JEnv) 3
                  (newNeo4JHandler ''Movies'' Map.empty demoNeo4JConfig))
              = [Inr d, Inr d, Inr d]
          \<and> nh_driversCreated (snd (getDriverCalls (neo4jDriver demoNeo4JEnv) 3
                  (newNeo4JHandler ''Movies'' Map.empty demoNeo4JConfig))) = 1
          \<and> nh_destroySubscriptions (snd (getDriverCalls (neo4jDriver demoNeo4JEnv) 3
                  (newNeo4JHandler ''Movies'' Map.empty demoNeo4JConfig))) = 1)"
proof -
  have a: "neo4jDriver demoNeo4JEnv (cfg_url demoNeo4JConfig)
      (cfg_username demoNeo4JConfig, cfg_password demoNeo4JConfig) = None \<and> (0::nat) < 3"
    by (simp add: demoNeo4JEnv_def demoNeo4JConfig_def)
  from driver_created_once_on_demand
         [where nd="neo4jDriver demoNeo4JEnv" and config=demoNeo4JConfig and n=3
            and nm="''Movies''" and cache=Map.empty] a
  obtain d where "fst (getDriverCalls (neo4jDriver demoNeo4JEnv) 3
                  (newNeo4JHandler ''Movies'' Map.empty demoNeo4JConfig)) = replicate 3 (Inr d)"
    "nh_driversCreated (snd (getDriverCalls (neo4jDriver demoNeo4JEnv) 3
                  (newNeo4JHandler ''Movies'' Map.empty demoNeo4JConfig))) = 1"
    "nh_destroySubscriptions (snd (getDriverCalls (neo4jDriver demoNeo4JEnv) 3
                  (newNeo4JHandler ''Movies'' Map.empty demoNeo4JConfig))) = 1"
    by blast
  moreover have "replicate 3 (Inr d) = [Inr d, Inr d, Inr d]" for d :: Driver
    by (simp add: numeral_3_eq_3)
  ultimately show ?thesis using a by auto
qed

lemma neo4jGetMeshSource_Inr:
  "neo4jGetMeshSource env this = (Inr source, this') \<Longrightarrow>
     \<exists>typeDefs schema. makeAugmentedSchema env typeDefs = Inr schema \<and>
       source = \<lparr> ms_schema = schema, ms_executor = None, ms_contextVariables = None,
                  ms_contextBuilder = Some ContextBuilder, ms_batch = None \<rparr>"
  by (auto simp: neo4jGetMeshSource_def split: prod.splits sum.splits)

lemma getDriver_total:
  "neo4jDriver env (cfg_url (nh_config this)) (cfg_username (nh_config this), cfg_password (nh_config this)) = None
     \<Longrightarrow> \<exists>d this'. getDriver (neo4jDriver env) this = (Inr d, this')"
  by (simp add: getDriver_def split: option.splits)

lemma inferTypeDefs_total:
  assumes "neo4jDriver env (cfg_url (nh_config this)) (cfg_username (nh_config this), cfg_password (nh_config this)) = None"
    and "\<forall>d b. \<not> isl (inferSchema env d b)"
  shows "\<exists>typeDefs this'. inferTypeDefs env this = (Inr typeDefs, this')"
proof -
  from getDriver_total[OF assms(1)] obtain d this' where
    g: "getDriver (neo4jDriver env) this = (Inr d, this')" by blast
  from assms(2) obtain td where
    "inferSchema env d (cfg_alwaysIncludeRelationships (nh_config this')) = Inr td"
    by (metis isl_def sum.exhaust_sel sum.collapse(2))
  with g show ?thesis by (simp add: inferTypeDefs_def)
qed

text \<open>
  Claim C8, as the code has it. Every object \<^verbatim>\<open>getMeshSource\<close> of the Neo4J handler
  resolves to has a schema made by \<^verbatim>\<open>makeAugmentedSchema\<close> and a \<^verbatim>\<open>contextBuilder\<close>, and
  has no \<^verbatim>\<open>executor\<close>, no \<^verbatim>\<open>contextVariables\<close> and no \<^verbatim>\<open>batch\<close> key; and it does
  resolve whenever \<^verbatim>\<open>neo4j.driver\<close>, \<^verbatim>\<open>inferSchema\<close> and \<^verbatim>\<open>makeAugmentedSchema\<close> succeed.
\<close>

theorem neo4j_source_has_schema_and_contextBuilder:
  "(\<forall>source this'. neo4jGetMeshSource env this = (Inr source, this') \<longrightarrow>
      ms_executor source = (None :: 'ex option)
      \<and> ms_contextBuilder source = Some ContextBuilder
      \<and> ms_contextVariables source = None
      \<and> ms_batch source = None
      \<and> (\<exists>typeDefs. makeAugmentedSchema env typeDefs = Inr (ms_schema source)))
   \<and> (neo4jDriver env (cfg_url (nh_config this))
          (cfg_username (nh_config this), cfg_password (nh_config this)) = None
        \<and> (\<forall>d b. \<not> isl (inferSchema env d b))
        \<and> (\<forall>typeDefs. \<not> isl (makeAugmentedSchema env typeDefs)) \<longrightarrow>
      (\<exists>source this'.
         (neo4jGetMeshSource env this
            :: (js_error + ('sch, 'ex, Neo4JContextBuilder) MeshSource) \<times> Neo4JHandler)
           = (Inr source, this')))"
proof -
  have shape: "\<forall>source this'.
      (neo4jGetMeshSource env this
         :: (js_error + ('sch, 'ex, Neo4JContextBuilder) MeshSource) \<times> Neo4JHandler)
        = (Inr source, this') \<longrightarrow>
      ms_executor source = None
      \<and> ms_contextBuilder source = Some ContextBuilder
      \<and> ms_contextVariables source = None
      \<and> ms_batch source = None
      \<and> (\<exists>typeDefs. makeAugmentedSchema env typeDefs = Inr (ms_schema source))"
  proof (intro allI impI)
    fix source :: "('sch, 'ex, Neo4JContextBuilder) MeshSource" and this'
    assume "neo4jGetMeshSource env this = (Inr source, this')"
    from neo4jGetMeshSource_Inr[OF this]
    show "ms_executor source = None \<and> ms_contextBuilder source = Some ContextBuilder
        \<and> ms_contextVariables source = None \<and> ms_batch source = None
        \<and> (\<exists>typeDefs. makeAugmentedSchema env typeDefs = Inr (ms_schema source))"
      by auto
  qed
  have succeeds: "neo4jDriver env (cfg_url (nh_config this))
          (cfg_username (nh_config this), cfg_password (nh_config this)) = None
        \<and> (\<forall>d b. \<not> isl (inferSchema env d b))
        \<and> (\<forall>typeDefs. \<not> isl (makeAugmentedSchema env typeDefs)) \<longrightarrow>
      (\<exists>source this'.
         (neo4jGetMeshSource env this
            :: (js_error + ('sch, 'ex, Neo4JContextBuilder) MeshSource) \<times> Neo4JHandler)
           = (Inr source, this'))"
  proof
    assume h: "neo4jDriver env (cfg_url (nh_config this))
            (cfg_username (nh_config this), cfg_password (nh_config this)) = None
          \<and> (\<forall>d b. \<not> isl (inferSchema env d b))
          \<and> (\<forall>typeDefs. \<not> isl (makeAugmentedSchema env typeDefs))"
    then obtain td0 this0 where i: "inferTypeDefs env this = (Inr td0, this0)"
      using inferTypeDefs_total by blast
    then have "\<exists>td this1. neo4jTypeDefs env this = (Inr td, this1)"
      by (simp add: neo4jTypeDefs_def split: option.splits)
    then obtain td this1 where t: "neo4jTypeDefs env this = (Inr td, this1)"
      by blast
    from h obtain sch where "makeAugmentedSchema env td = Inr sch"
      by (metis isl_def sum.exhaust_sel sum.collapse(2))
    with t show "\<exists>source this'.
           (neo4jGetMeshSource env this
              :: (js_error + ('sch, 'ex, Neo4JContextBuilder) MeshSource) \<times> Neo4JHandler)
             = (Inr source, this')"
      by (simp add: neo4jGetMeshSource_def)
  qed
  from shape succeeds show ?thesis by blast
qed

lemma demo_neo4j_source:
  "neo4jGetMeshSource demoNeo4JEnv (newNeo4JHandler ''Movies'' Map.empty demoNeo4JConfig)
     = (Inr \<lparr> ms_schema = ''augmented type Movie { title: String }'', ms_executor = None,
              ms_contextVariables = None, ms_contextBuilder = Some ContextBuilder,
              ms_batch = None \<rparr>,
        (newNeo4JHandler ''Movies'' Map.empty demoNeo4JConfig)
          \<lparr> nh_driver := Some (newDriver (newNeo4JHandler ''Movies'' Map.empty demoNeo4JConfig)),
            nh_driversCreated := 1, nh_destroySubscriptions := 1 \<rparr>)"
  by (simp add: neo4jGetMeshSource_def neo4jTypeDefs_def inferTypeDefs_def getDriver_def
        demoNeo4JEnv_def demoNeo4JConfig_def newNeo4JHandler_def)

text \<open>
  Claim C8 as stated does not hold: the object a healthy Neo4J handler resolves to has
  no \<^verbatim>\<open>executor\<close> key.
\<close>

theorem neo4j_source_has_no_executor:
  "fst (neo4jGetMeshSource demoNeo4JEnv (newNeo4JHandler ''Movies'' Map.empty demoNeo4JConfig))
     = Inr \<lparr> ms_schema = ''augmented type Movie { title: String }'',
             ms_executor = (None :: unit option),
             ms_contextVariables = None, ms_contextBuilder = Some ContextBuilder,
             ms_batch = None \<rparr>"
  by (simp add: demo_neo4j_source)

text \<open>
A healthy handler resolves to an object with a context builder and no executor.
\<close>

theorem neo4j_source_has_schema_and_contextBuilder_witness:
  "\<exists>source this'.
     neo4jGetMeshSource demoNeo4JEnv (newNeo4JHandler ''Movies'' Map.empty demoNeo4JConfig)
       = (Inr source, this')
     \<and> ms_executor source = (None :: unit option)
     \<and> ms_contextBuilder source = Some ContextBuilder
     \<and> ms_batch source = None"
proof -
  let ?h = "newNeo4JHandler ''Movies'' Map.empty demoNeo4JConfig"
  note t = neo4j_source_has_schema_and_contextBuilder
             [where env=demoNeo4JEnv and this="?h" and ?'ex=unit]
  have "neo4jDriver demoNeo4JEnv (cfg_url (nh_config ?h))
          (cfg_username (nh_config ?h), cfg_password (nh_config ?h)) = None
        \<and> (\<forall>d b. \<not> isl (inferSchema demoNeo4JEnv d b))
        \<and> (\<forall>typeDefs. \<not> isl (makeAugmentedSchema demoNeo4JEnv typeDefs))"
    by (simp add: demoNeo4JEnv_def demoNeo4JConfig_def newNeo4JHandler_def)
  with t [THEN conjunct2] obtain source :: "(string, unit, Neo4JContextBuilder) MeshSource"
    and this' where s: "neo4jGetMeshSource demoNeo4JEnv ?h = (Inr source, this')"
    by blast
  from t [THEN conjunct1, rule_format, OF s] s show ?thesis by blast
qed

end
